theory Spec2Isabelle
  imports Complex_Main
begin

section \<open>Values exchanged with the outside world\<close>

text \<open>
  The two scripts \<^verbatim>\<open>scripts/plate_detect.py\<close> and \<^verbatim>\<open>scripts/plate_local.py\<close> are
  straight-line glue around external libraries. Everything a library call can answer is
  an input of the model (the record \<open>env\<close> below); everything the scripts do to the
  outside (a line on standard output, a call of a model) is an event of the run.

  A Python float is modelled by the rational number it denotes. The scripts only compare
  floats, take \<^verbatim>\<open>max(0, v)\<close> and truncate with \<^verbatim>\<open>int\<close>, which are exact on these values;
  the one rounded computation, \<^verbatim>\<open>(time.time() - started) * 1000\<close>, is taken exactly, and
  only its sign is ever used in a statement. NaN and the infinities are not represented.

  What \<^verbatim>\<open>parse_args()\<close> makes of the command line is an input too (\<open>cmdline\<close>): the
  parsed arguments (the records \<open>detect_args\<close> and \<open>local_args\<close>, defaults from the
  environment variables filled in), a rejected command line, or a request for help.
  \<^verbatim>\<open>np.array(image)\<close> is taken as the image itself. The values the
  libraries return have the shapes the scripts destructure: a list of results, each with
  an optional list of boxes, a box with four coordinates and a confidence; an optional
  list of lines, each of them null or a list of entries \<^verbatim>\<open>(region, (text, confidence))\<close>.
\<close>

datatype py_exc =
    Exception string      \<comment> \<open>an instance of \<^verbatim>\<open>Exception\<close>; the string is \<^verbatim>\<open>str(exc)\<close>\<close>
  | BaseException string  \<comment> \<open>any other raised object (\<^verbatim>\<open>KeyboardInterrupt\<close>, ...)\<close>

datatype json =
    JNull
  | JBool bool
  | JInt int
  | JFloat rat
  | JStr string
  | JList "json list"
  | JObj "(string \<times> json) list"  \<comment> \<open>a \<^verbatim>\<open>dict\<close>, keys in insertion order\<close>

record image =
  width :: nat
  height :: nat

type_synonym bbox = "int \<times> int \<times> int \<times> int"

record box =
  xyxy :: "rat \<times> rat \<times> rat \<times> rat"
  conf :: rat

datatype yolo_result = Results (boxes: "box list option")

datatype yolo_model =
  YOLO_model (predict: "image \<Rightarrow> rat \<Rightarrow> string \<Rightarrow> py_exc + yolo_result list")

type_synonym region = "(rat \<times> rat) list"

type_synonym ocr_entry = "region \<times> (string \<times> rat)"

datatype ocr_model =
  OCR_model (ocr: "image \<Rightarrow> py_exc + ocr_entry list option list option")
  \<comment> \<open>the call returns \<^verbatim>\<open>None\<close> or a list of lines; a line is \<^verbatim>\<open>None\<close> or a list of entries\<close>

record args =
  image :: string
  yolo_model :: string
  min_conf :: rat
  device :: string

record detect_args = args +
  output_crop :: "string option"

record local_args = args +
  ocr_lang :: string

record env =
  import_numpy_PIL :: "py_exc option"
  import_ultralytics :: "py_exc option"
  import_paddleocr :: "py_exc option"
  import_torch :: "py_exc option"
  clock :: "nat \<Rightarrow> rat"   \<comment> \<open>the k-th reading of \<^verbatim>\<open>time.time()\<close> in the run\<close>
  os_path_exists :: "string \<Rightarrow> bool"
  Image_open :: "string \<Rightarrow> py_exc + image"   \<comment> \<open>\<^verbatim>\<open>Image.open(p).convert("RGB")\<close>\<close>
  torch_cuda_is_available :: "py_exc + bool"
  YOLO :: "string \<Rightarrow> py_exc + yolo_model"
  Image_crop :: "image \<Rightarrow> bbox \<Rightarrow> py_exc + image"
  Image_save :: "image \<Rightarrow> string \<Rightarrow> py_exc option"
  PaddleOCR :: "string \<Rightarrow> bool \<Rightarrow> py_exc + ocr_model"

datatype event =
    Print json                 \<comment> \<open>\<^verbatim>\<open>print(json.dumps(...))\<close>: one line on standard output\<close>
  | ImageOpen string
  | CudaCheck                  \<comment> \<open>a call of \<^verbatim>\<open>torch.cuda.is_available()\<close>\<close>
  | LoadYOLO string
  | Predict image rat string   \<comment> \<open>\<^verbatim>\<open>model.predict(source, conf, device)\<close>\<close>
  | Crop bbox
  | Save string
  | NewPaddleOCR string bool   \<comment> \<open>\<^verbatim>\<open>PaddleOCR(lang, use_gpu)\<close>\<close>
  | Ocr image                  \<comment> \<open>\<^verbatim>\<open>ocr.ocr(plate_img, cls=False)\<close>\<close>
  | PrintHelp                  \<comment> \<open>the help text of \<^verbatim>\<open>argparse\<close> on standard output: not JSON\<close>

datatype ending =
    Exit nat          \<comment> \<open>\<^verbatim>\<open>sys.exit(n)\<close>, or the end of the script with \<open>n = 0\<close>\<close>
  | Uncaught py_exc   \<comment> \<open>the exception leaves the script: a traceback, nothing caught\<close>

type_synonym run = "event list \<times> ending"


definition halt :: "ending \<Rightarrow> run" where
  "halt t = ([], t)"

definition emit :: "event \<Rightarrow> run \<Rightarrow> run" where
  "emit e r = (e # fst r, snd r)"

definition emits :: "event list \<Rightarrow> run \<Rightarrow> run" where
  "emits es r = (es @ fst r, snd r)"


section \<open>Python and numpy primitives\<close>

definition py_int :: "rat \<Rightarrow> int" where
  \<comment> \<open>\<^verbatim>\<open>int(x)\<close> of a float truncates towards zero\<close>
  "py_int x = (if 0 \<le> x then \<lfloor>x\<rfloor> else \<lceil>x\<rceil>)"

definition clamp0 :: "rat \<Rightarrow> int" where
  \<comment> \<open>\<^verbatim>\<open>int(max(0, v))\<close>\<close>
  "clamp0 v = py_int (max 0 v)"

definition clamp_box :: "rat \<times> rat \<times> rat \<times> rat \<Rightarrow> bbox" where
  \<comment> \<open>\<^verbatim>\<open>x1, y1, x2, y2 = [int(max(0, v)) for v in ...]\<close>\<close>
  "clamp_box b = (case b of (a1, b1, a2, b2) \<Rightarrow> (clamp0 a1, clamp0 b1, clamp0 a2, clamp0 b2))"

fun argmax_from :: "rat list \<Rightarrow> nat \<Rightarrow> rat \<Rightarrow> nat \<Rightarrow> nat" where
  "argmax_from [] i mp max_ind = max_ind"
| "argmax_from (x # xs) i mp max_ind =
     (if mp < x then argmax_from xs (Suc i) x i else argmax_from xs (Suc i) mp max_ind)"

definition np_argmax :: "rat list \<Rightarrow> py_exc + nat" where
  \<comment> \<open>numpy's \<^verbatim>\<open>argmax\<close>: the index of the first occurrence of the maximum; it raises
      \<^verbatim>\<open>ValueError\<close> on an empty array\<close>
  "np_argmax a =
     (case a of
        [] \<Rightarrow> Inl (Exception ''attempt to get argmax of an empty sequence'')
      | x # xs \<Rightarrow> Inr (argmax_from xs 1 x 0))"

definition getitem :: "'a list \<Rightarrow> nat \<Rightarrow> py_exc + 'a" where
  \<comment> \<open>\<^verbatim>\<open>boxes[best_idx]\<close> with a non-negative index\<close>
  "getitem xs i = (if i < length xs then Inr (xs ! i) else Inl (Exception ''index out of range''))"

definition json_str_opt :: "string option \<Rightarrow> json" where
  "json_str_opt s = (case s of None \<Rightarrow> JNull | Some t \<Rightarrow> JStr t)"

definition json_bbox :: "bbox \<Rightarrow> json" where
  "json_bbox b = (case b of (x1, y1, x2, y2) \<Rightarrow> JList [JInt x1, JInt y1, JInt x2, JInt y2])"

definition elapsed_ms_of :: "env \<Rightarrow> rat \<Rightarrow> int" where
  \<comment> \<open>\<^verbatim>\<open>int((time.time() - started) * 1000)\<close>, the second reading of the clock\<close>
  "elapsed_ms_of e started = py_int ((clock e 1 - started) * 1000)"

section \<open>scripts/plate\_detect.py\<close>

definition auto_device_detect :: "env \<Rightarrow> string \<Rightarrow> event list \<times> string" where
  \<comment> \<open>lines 38-44: \<^verbatim>\<open>import torch\<close> and the capability check inside \<^verbatim>\<open>try\<close>, a bare
      \<^verbatim>\<open>except:\<close> around both\<close>
  "auto_device_detect e d =
     (if d = ''auto'' then
        (case import_torch e of
           Some exc \<Rightarrow> ([], ''cpu'')
         | None \<Rightarrow>
            ([CudaCheck],
             (case torch_cuda_is_available e of
                Inl exc \<Rightarrow> ''cpu''
              | Inr available \<Rightarrow> if available then ''0'' else ''cpu'')))
      else ([], d))"

definition detect_not_detected :: "env \<Rightarrow> rat \<Rightarrow> run" where
  \<comment> \<open>lines 56-58\<close>
  "detect_not_detected e started =
     emit (Print (JObj [(''detected'', JBool False), (''confidence'', JFloat 0),
                        (''elapsed_ms'', JInt (elapsed_ms_of e started))]))
       (halt (Exit 0))"

definition detect_result :: "env \<Rightarrow> rat \<Rightarrow> rat \<Rightarrow> bbox \<Rightarrow> string option \<Rightarrow> run" where
  \<comment> \<open>lines 73-83\<close>
  "detect_result e started c b crop_path =
     emit (Print (JObj ([(''detected'', JBool True), (''confidence'', JFloat c),
                         (''bbox'', json_bbox b),
                         (''elapsed_ms'', JInt (elapsed_ms_of e started))]
                        @ (case crop_path of
                             None \<Rightarrow> []
                           | Some p \<Rightarrow> if p \<noteq> [] then [(''crop_path'', JStr p)] else []))))
       (halt (Exit 0))"

definition plate_detect_main :: "env \<Rightarrow> detect_args \<Rightarrow> run" where
  \<comment> \<open>\<open>main\<close> from line 28 on, with the parsed arguments \<open>a\<close>\<close>
  "plate_detect_main e a =
     (let started = clock e 0 in
      if \<not> os_path_exists e (image a) then
        emit (Print (JObj [(''detected'', JBool False), (''error'', JStr ''image_not_found'')]))
          (halt (Exit 2))
      else
        emit (ImageOpen (image a))
         (case Image_open e (image a) of
            Inl exc \<Rightarrow> halt (Uncaught exc)
          | Inr img \<Rightarrow>
             (case auto_device_detect e (device a) of
                (check, dev) \<Rightarrow>
                  emits check
                   (emit (LoadYOLO (yolo_model a))
                     (case YOLO e (yolo_model a) of
                        Inl (Exception msg) \<Rightarrow>
                          emit (Print (JObj [(''detected'', JBool False),
                                             (''error'', JStr (''yolo_load_error: '' @ msg))]))
                            (halt (Exit 3))
                      | Inl (BaseException msg) \<Rightarrow> halt (Uncaught (BaseException msg))
                      | Inr model \<Rightarrow>
                         emit (Predict img (min_conf a) dev)
                          (case predict model img (min_conf a) dev of
                             Inl exc \<Rightarrow> halt (Uncaught exc)
                           | Inr [] \<Rightarrow> detect_not_detected e started
                           | Inr (r # rs) \<Rightarrow>
                              (case boxes r of
                                 None \<Rightarrow> detect_not_detected e started
                               | Some bs \<Rightarrow>
                                  if length bs = 0 then detect_not_detected e started
                                  else
                                    (case np_argmax (map conf bs) of
                                       Inl exc \<Rightarrow> halt (Uncaught exc)
                                     | Inr best_idx \<Rightarrow>
                                        (case getitem bs best_idx of
                                           Inl exc \<Rightarrow> halt (Uncaught exc)
                                         | Inr bx \<Rightarrow>
                                            (let b = clamp_box (xyxy bx); c = conf bx in
                                             case output_crop a of
                                               None \<Rightarrow> detect_result e started c b None
                                             | Some p \<Rightarrow>
                                                if p = [] then detect_result e started c b None
                                                else
                                                  emit (Crop b)
                                                   (case Image_crop e img b of
                                                      Inl exc \<Rightarrow> halt (Uncaught exc)
                                                    | Inr plate_img \<Rightarrow>
                                                       emit (Save p)
                                                        (case Image_save e plate_img p of
                                                           Some exc \<Rightarrow> halt (Uncaught exc)
                                                         | None \<Rightarrow>
                                                            detect_result e started c b
                                                              (Some p)))))))))))))"

definition imports_detect :: "env \<Rightarrow> run \<Rightarrow> run" where
  \<comment> \<open>the imports of lines 9-16, then the rest of the script\<close>
  "imports_detect e rest =
     (case import_numpy_PIL e of
        Some exc \<Rightarrow> halt (Uncaught exc)
      | None \<Rightarrow>
         (case import_ultralytics e of
            Some (Exception msg) \<Rightarrow>
              emit (Print (JObj [(''detected'', JBool False),
                                 (''error'', JStr (''import_error: '' @ msg))]))
                (halt (Exit 1))
          | Some (BaseException msg) \<Rightarrow> halt (Uncaught (BaseException msg))
          | None \<Rightarrow> rest))"

definition plate_detect :: "env \<Rightarrow> detect_args \<Rightarrow> run" where
  \<comment> \<open>the whole script on a command line that parses to \<open>a\<close>\<close>
  "plate_detect e a = imports_detect e (plate_detect_main e a)"


section \<open>scripts/plate\_local.py\<close>

definition detect_plate ::
  "yolo_model \<Rightarrow> image \<Rightarrow> rat \<Rightarrow> string \<Rightarrow> py_exc + ((rat \<times> rat \<times> rat \<times> rat) \<times> rat) option" where
  "detect_plate model image_np min_conf' device' =
     (case predict model image_np min_conf' device' of
        Inl exc \<Rightarrow> Inl exc
      | Inr [] \<Rightarrow> Inr None
      | Inr (r # rs) \<Rightarrow>
         (case boxes r of
            None \<Rightarrow> Inr None
          | Some bs \<Rightarrow>
             if length bs = 0 then Inr None
             else
               (case np_argmax (map conf bs) of
                  Inl exc \<Rightarrow> Inl exc
                | Inr best_idx \<Rightarrow>
                   (case getitem bs best_idx of
                      Inl exc \<Rightarrow> Inl exc
                    | Inr bx \<Rightarrow> Inr (Some (xyxy bx, conf bx))))))"

fun scan_entries :: "ocr_entry list \<Rightarrow> string option \<times> rat \<Rightarrow> string option \<times> rat" where
  \<comment> \<open>the inner loop of lines 39-42, on the pair \<^verbatim>\<open>(best_text, best_conf)\<close>\<close>
  "scan_entries [] best = best"
| "scan_entries ((bx, (text, c)) # es) (best_text, best_conf) =
     (if c > best_conf then scan_entries es (Some text, c)
      else scan_entries es (best_text, best_conf))"

definition NoneType_not_iterable :: py_exc where
  \<comment> \<open>the \<^verbatim>\<open>TypeError\<close> of a \<^verbatim>\<open>for\<close> loop over \<^verbatim>\<open>None\<close>\<close>
  "NoneType_not_iterable =
     Exception (CHR 0x27 # ''NoneType'' @ CHR 0x27 # '' object is not iterable'')"

fun scan_lines ::
  "ocr_entry list option list \<Rightarrow> string option \<times> rat \<Rightarrow> py_exc + (string option \<times> rat)" where
  \<comment> \<open>the outer loop of line 38; line 39 iterates the line, which raises when it is
      \<^verbatim>\<open>None\<close>\<close>
  "scan_lines [] best = Inr best"
| "scan_lines (None # ls) best = Inl NoneType_not_iterable"
| "scan_lines (Some line # ls) best = scan_lines ls (scan_entries line best)"

definition ocr_plate :: "ocr_model \<Rightarrow> image \<Rightarrow> py_exc + (string option \<times> rat)" where
  "ocr_plate ocr' plate_img =
     (case ocr ocr' plate_img of
        Inl exc \<Rightarrow> Inl exc
      | Inr None \<Rightarrow> Inr (None, 0)
      | Inr (Some result) \<Rightarrow>
         if result = [] then Inr (None, 0)
         else scan_lines result (None, 0))"

definition auto_device_local :: "env \<Rightarrow> string \<Rightarrow> event list \<times> (py_exc + string)" where
  \<comment> \<open>lines 64-66: torch is already imported; no \<^verbatim>\<open>try\<close> around the capability check\<close>
  "auto_device_local e d =
     (if d = ''auto'' then
        ([CudaCheck],
         (case torch_cuda_is_available e of
            Inl exc \<Rightarrow> Inl exc
          | Inr available \<Rightarrow> Inr (if available then ''0'' else ''cpu'')))
      else ([], Inr d))"

definition plate_local_main :: "env \<Rightarrow> local_args \<Rightarrow> run" where
  \<comment> \<open>\<open>main\<close> from line 55 on, with the parsed arguments \<open>a\<close>\<close>
  "plate_local_main e a =
     (let started = clock e 0 in
      if \<not> os_path_exists e (image a) then
        emit (Print (JObj [(''plate'', JNull), (''error'', JStr ''image_not_found'')]))
          (halt (Exit 2))
      else
        emit (ImageOpen (image a))
         (case Image_open e (image a) of
            Inl exc \<Rightarrow> halt (Uncaught exc)
          | Inr img \<Rightarrow>
             (case auto_device_local e (device a) of
                (check, Inl exc) \<Rightarrow> emits check (halt (Uncaught exc))
              | (check, Inr dev) \<Rightarrow>
                  emits check
                   (emit (LoadYOLO (yolo_model a))
                     (case YOLO e (yolo_model a) of
                        Inl (Exception msg) \<Rightarrow>
                          emit (Print (JObj [(''plate'', JNull),
                                             (''error'', JStr (''yolo_load_error: '' @ msg))]))
                            (halt (Exit 3))
                      | Inl (BaseException msg) \<Rightarrow> halt (Uncaught (BaseException msg))
                      | Inr model \<Rightarrow>
                         emit (Predict img (min_conf a) dev)
                          (case detect_plate model img (min_conf a) dev of
                             Inl exc \<Rightarrow> halt (Uncaught exc)
                           | Inr None \<Rightarrow>
                              emit (Print (JObj [(''plate'', JNull), (''confidence'', JFloat 0)]))
                                (halt (Exit 0))
                           | Inr (Some (bbox', det_conf)) \<Rightarrow>
                              (let b = clamp_box bbox' in
                               emit (Crop b)
                                (case Image_crop e img b of
                                   Inl exc \<Rightarrow> halt (Uncaught exc)
                                 | Inr plate_img \<Rightarrow>
                                    (let use_gpu = (dev \<noteq> ''cpu'' \<and> dev \<noteq> ''-1'') in
                                     emit (NewPaddleOCR (ocr_lang a) use_gpu)
                                      (case PaddleOCR e (ocr_lang a) use_gpu of
                                         Inl exc \<Rightarrow> halt (Uncaught exc)
                                       | Inr ocr' \<Rightarrow>
                                          emit (Ocr plate_img)
                                           (case ocr_plate ocr' plate_img of
                                              Inl exc \<Rightarrow> halt (Uncaught exc)
                                            | Inr (text, ocr_conf) \<Rightarrow>
                                               emit (Print (JObj
                                                  [(''plate'', json_str_opt text),
                                                   (''confidence'', JFloat det_conf),
                                                   (''ocr_confidence'', JFloat ocr_conf),
                                                   (''bbox'', json_bbox b),
                                                   (''elapsed_ms'', JInt (elapsed_ms_of e started))]))
                                                 (halt (Exit 0)))))))))))))"

definition guarded_imports_local :: "env \<Rightarrow> py_exc option" where
  \<comment> \<open>lines 11-14: the first of the three imports that fails raises\<close>
  "guarded_imports_local e =
     (case import_ultralytics e of
        Some exc \<Rightarrow> Some exc
      | None \<Rightarrow>
         (case import_paddleocr e of
            Some exc \<Rightarrow> Some exc
          | None \<Rightarrow> import_torch e))"

definition imports_local :: "env \<Rightarrow> run \<Rightarrow> run" where
  \<comment> \<open>the imports of lines 8-17, then the rest of the script\<close>
  "imports_local e rest =
     (case import_numpy_PIL e of
        Some exc \<Rightarrow> halt (Uncaught exc)
      | None \<Rightarrow>
         (case guarded_imports_local e of
            Some (Exception msg) \<Rightarrow>
              emit (Print (JObj [(''plate'', JNull),
                                 (''error'', JStr (''import_error: '' @ msg))]))
                (halt (Exit 1))
          | Some (BaseException msg) \<Rightarrow> halt (Uncaught (BaseException msg))
          | None \<Rightarrow> rest))"

definition plate_local :: "env \<Rightarrow> local_args \<Rightarrow> run" where
  \<comment> \<open>the whole script on a command line that parses to \<open>a\<close>\<close>
  "plate_local e a = imports_local e (plate_local_main e a)"


section \<open>Observing a run\<close>

definition printed :: "run \<Rightarrow> json list" where
  \<comment> \<open>the lines of standard output, in order\<close>
  "printed r = concat (map (\<lambda>ev. case ev of Print j \<Rightarrow> [j] | _ \<Rightarrow> []) (fst r))"

definition json_get :: "json \<Rightarrow> string \<Rightarrow> json option" where
  "json_get j k = (case j of JObj kvs \<Rightarrow> map_of kvs k | _ \<Rightarrow> None)"

definition is_model_event :: "event \<Rightarrow> bool" where
  \<comment> \<open>a model is loaded or run\<close>
  "is_model_event ev =
     (case ev of
        LoadYOLO p \<Rightarrow> True | Predict i c d \<Rightarrow> True
      | NewPaddleOCR l g \<Rightarrow> True | Ocr i \<Rightarrow> True
      | _ \<Rightarrow> False)"

definition is_ocr_event :: "event \<Rightarrow> bool" where
  "is_ocr_event ev = (case ev of NewPaddleOCR l g \<Rightarrow> True | Ocr i \<Rightarrow> True | _ \<Rightarrow> False)"


definition crops :: "run \<Rightarrow> bbox list" where
  \<comment> \<open>the boxes \<^verbatim>\<open>image.crop\<close> was called with, in order\<close>
  "crops r = concat (map (\<lambda>ev. case ev of Crop b \<Rightarrow> [b] | _ \<Rightarrow> []) (fst r))"

definition ocr_inputs :: "run \<Rightarrow> image list" where
  \<comment> \<open>the images the recognition call was given, in order\<close>
  "ocr_inputs r = concat (map (\<lambda>ev. case ev of Ocr i \<Rightarrow> [i] | _ \<Rightarrow> []) (fst r))"

definition predict_devices :: "run \<Rightarrow> string list" where
  \<comment> \<open>the device of every detection call, in order\<close>
  "predict_devices r = concat (map (\<lambda>ev. case ev of Predict i c d \<Rightarrow> [d] | _ \<Rightarrow> []) (fst r))"

definition cuda_checks :: "run \<Rightarrow> nat" where
  \<comment> \<open>how often the capability check was called\<close>
  "cuda_checks r = length (filter (\<lambda>ev. ev = CudaCheck) (fst r))"

definition no_boxes :: "yolo_result list \<Rightarrow> bool" where
  \<comment> \<open>\<^verbatim>\<open>not results or results[0].boxes is None or len(results[0].boxes) == 0\<close>\<close>
  "no_boxes results =
     (case results of
        [] \<Rightarrow> True
      | r # rs \<Rightarrow> (case boxes r of None \<Rightarrow> True | Some bs \<Rightarrow> length bs = 0))"

definition json_contract :: "run \<Rightarrow> bool" where
  \<comment> \<open>what a run keeps of "one JSON object per invocation": an exit of the script's own
      (codes 0 to 3) comes with exactly one printed object, which has an \<open>error\<close> key
      exactly when the code is not 0; an exception that leaves the script comes with no
      output at all\<close>
  "json_contract r =
     (case snd r of
        Exit n \<Rightarrow>
          n \<le> 3 \<and>
          (case printed r of
             [j] \<Rightarrow> (n = 0) = (json_get j ''error'' = None)
           | _ \<Rightarrow> False)
      | Uncaught exc \<Rightarrow> printed r = [])"



definition entry_conf :: "ocr_entry \<Rightarrow> rat" where
  "entry_conf en = snd (snd en)"

definition entry_text :: "ocr_entry \<Rightarrow> string" where
  "entry_text en = fst (snd en)"

subsection \<open>What goes wrong in a run, and what the scripts make of it\<close>










section \<open>Concrete environments\<close>

definition img0 :: image where
  "img0 = \<lparr>width = 100, height = 50\<rparr>"

definition plate0 :: image where
  "plate0 = \<lparr>width = 30, height = 10\<rparr>"

definition boxes0 :: "box list" where
  "boxes0 = [\<lparr>xyxy = (10, 20, 40, 30), conf = 1 / 2\<rparr>,
             \<lparr>xyxy = (- 5 / 2, 7 / 2, 5000, 40), conf = 9 / 10\<rparr>,
             \<lparr>xyxy = (1, 1, 2, 2), conf = 9 / 10\<rparr>]"

definition model0 :: yolo_model where
  "model0 = YOLO_model (\<lambda>i c d. Inr [Results (Some boxes0)])"

definition model_empty :: yolo_model where
  "model_empty = YOLO_model (\<lambda>i c d. Inr [Results (Some [])])"

definition ocr_result0 :: "ocr_entry list list" where
  "ocr_result0 = [[([(0, 0), (30, 10)], (''ABC'', 3 / 10))],
                  [([(0, 0), (10, 10)], (''12-34'', 4 / 5)), ([(10, 0), (30, 10)], (''X'', 4 / 5))]]"

definition ocr0 :: ocr_model where
  "ocr0 = OCR_model (\<lambda>i. Inr (Some (map Some ocr_result0)))"

definition ocr_zero :: ocr_model where
  "ocr_zero = OCR_model (\<lambda>i. Inr (Some [Some [([(0, 0), (30, 10)], (''ABC'', 0))]]))"

definition ocr_null_line :: ocr_model where
  \<comment> \<open>a recognition call that answers \<^verbatim>\<open>[None]\<close>: one line, and that line null\<close>
  "ocr_null_line = OCR_model (\<lambda>i. Inr (Some [None]))"

definition env0 :: env where
  "env0 = \<lparr>import_numpy_PIL = None, import_ultralytics = None, import_paddleocr = None,
            import_torch = None,
            clock = (\<lambda>k. if k = 0 then 100 else 201 / 2),
            os_path_exists = (\<lambda>p. p = ''car.jpg''),
            Image_open = (\<lambda>p. Inr img0),
            torch_cuda_is_available = Inr True,
            YOLO = (\<lambda>p. Inr model0),
            Image_crop = (\<lambda>i b. Inr plate0),
            Image_save = (\<lambda>i p. None),
            PaddleOCR = (\<lambda>l g. Inr ocr0)\<rparr>"




definition env_none_found :: env where
  "env_none_found = env0\<lparr>YOLO := (\<lambda>p. Inr model_empty)\<rparr>"

definition env_clock_back :: env where
  "env_clock_back = env_none_found\<lparr>clock := (\<lambda>k. if k = 0 then 100 else 99)\<rparr>"




definition env_null_line :: env where
  "env_null_line = env0\<lparr>PaddleOCR := (\<lambda>l g. Inr ocr_null_line)\<rparr>"

definition env_cuda_raises :: env where
  "env_cuda_raises = env0\<lparr>torch_cuda_is_available := Inl (Exception ''CUDA driver error'')\<rparr>"

definition dargs0 :: detect_args where
  "dargs0 = \<lparr>image = ''car.jpg'', yolo_model = ''models/plate_yolo.pt'', min_conf = 35 / 100,
              device = ''auto'', output_crop = Some ''crop.png''\<rparr>"

definition largs0 :: local_args where
  "largs0 = \<lparr>image = ''car.jpg'', yolo_model = ''models/plate_yolo.pt'', min_conf = 35 / 100,
              device = ''auto'', ocr_lang = ''japan''\<rparr>"

definition dargs_missing :: detect_args where
  "dargs_missing = dargs0\<lparr>image := ''nowhere.jpg''\<rparr>"

definition largs_missing :: local_args where
  "largs_missing = largs0\<lparr>image := ''nowhere.jpg''\<rparr>"

section \<open>Runs, step by step\<close>

lemma printed_halt [simp]: "printed (halt t) = []"
  by (simp add: printed_def halt_def)

lemma printed_emit [simp]:
  "printed (emit ev r) = (case ev of Print j \<Rightarrow> [j] | _ \<Rightarrow> []) @ printed r"
  by (simp add: printed_def emit_def)

lemma printed_emits [simp]: "printed (emits es r) = printed (es, snd r) @ printed r"
  by (simp add: printed_def emits_def)

lemma snd_halt [simp]: "snd (halt t) = t"
  by (simp add: halt_def)

lemma snd_emit [simp]: "snd (emit ev r) = snd r"
  by (simp add: emit_def)

lemma snd_emits [simp]: "snd (emits es r) = snd r"
  by (simp add: emits_def)

lemma fst_halt [simp]: "fst (halt t) = []"
  by (simp add: halt_def)

lemma fst_emit [simp]: "fst (emit ev r) = ev # fst r"
  by (simp add: emit_def)

lemma fst_emits [simp]: "fst (emits es r) = es @ fst r"
  by (simp add: emits_def)

lemma printed_check_detect [simp]: "printed (fst (auto_device_detect e d), t) = []"
  by (simp add: auto_device_detect_def printed_def split: option.splits)

lemma printed_check_local [simp]: "printed (fst (auto_device_local e d), t) = []"
  by (simp add: auto_device_local_def printed_def)

lemma contract_uncaught [simp]: "json_contract (halt (Uncaught x))"
  by (simp add: json_contract_def)




lemma contract_print_exit [simp]:
  "json_contract (emit (Print j) (halt (Exit n))) = (n \<le> 3 \<and> ((n = 0) = (json_get j ''error'' = None)))"
  by (simp add: json_contract_def)







section \<open>The image path does not exist\<close>

text \<open>
  Claim C4. When the image path does not exist, \<open>main\<close> of the detector-only script prints
  exactly \<^verbatim>\<open>{"detected": false, "error": "image_not_found"}\<close> and exits with code 2, and
  \<open>main\<close> of the reader script prints exactly \<^verbatim>\<open>{"plate": null, "error": "image_not_found"}\<close>
  and exits with code 2. The print is the only event of the run: no image is opened, no
  capability check is made, no model is loaded or called. The same holds of the whole
  script once its imports have succeeded.
\<close>

theorem C4_image_not_found:
  "(\<not> os_path_exists e (image a) \<longrightarrow>
      plate_detect_main e a =
        ([Print (JObj [(''detected'', JBool False), (''error'', JStr ''image_not_found'')])],
         Exit 2)) \<and>
   (\<not> os_path_exists e (image a') \<longrightarrow>
      plate_local_main e a' =
        ([Print (JObj [(''plate'', JNull), (''error'', JStr ''image_not_found'')])],
         Exit 2)) \<and>
   (import_numpy_PIL e = None \<and> import_ultralytics e = None \<and>
    \<not> os_path_exists e (image a) \<longrightarrow>
      plate_detect e a =
        ([Print (JObj [(''detected'', JBool False), (''error'', JStr ''image_not_found'')])],
         Exit 2)) \<and>
   (import_numpy_PIL e = None \<and> guarded_imports_local e = None \<and>
    \<not> os_path_exists e (image a') \<longrightarrow>
      plate_local e a' =
        ([Print (JObj [(''plate'', JNull), (''error'', JStr ''image_not_found'')])],
         Exit 2))"
  by (simp add: plate_detect_def imports_detect_def plate_local_def imports_local_def plate_detect_main_def plate_local_main_def
      emit_def halt_def)

theorem C4_image_not_found_witness:
  "\<not> os_path_exists env0 ''nowhere.jpg'' \<and>
   plate_detect env0 dargs_missing =
     ([Print (JObj [(''detected'', JBool False), (''error'', JStr ''image_not_found'')])],
      Exit 2) \<and>
   plate_local env0 largs_missing =
     ([Print (JObj [(''plate'', JNull), (''error'', JStr ''image_not_found'')])],
      Exit 2) \<and>
   filter is_model_event (fst (plate_detect env0 dargs_missing)) = [] \<and>
   filter is_model_event (fst (plate_local env0 largs_missing)) = []"
  using C4_image_not_found [of env0 dargs_missing largs_missing]
  by (simp add: env0_def dargs_missing_def largs_missing_def dargs0_def largs0_def
      guarded_imports_local_def is_model_event_def)

section \<open>Selecting the best box\<close>

lemma argmax_from_spec:
  "length pre = i \<Longrightarrow> mi < i \<Longrightarrow> pre ! mi = mp \<Longrightarrow> \<forall>y \<in> set pre. y \<le> mp \<Longrightarrow>
   \<forall>j < mi. pre ! j < mp \<Longrightarrow>
   argmax_from xs i mp mi < length (pre @ xs) \<and>
   (\<forall>y \<in> set (pre @ xs). y \<le> (pre @ xs) ! argmax_from xs i mp mi) \<and>
   (\<forall>j < argmax_from xs i mp mi. (pre @ xs) ! j < (pre @ xs) ! argmax_from xs i mp mi)"
proof (induction xs arbitrary: pre i mp mi)
  case Nil
  then show ?case by auto
next
  case (Cons x xs)
  show ?case
  proof (cases "mp < x")
    case True
    have pre_lt: "\<forall>j < i. (pre @ [x]) ! j < x"
    proof (intro allI impI)
      fix j assume "j < i"
      then have "pre ! j \<in> set pre" using Cons.prems(1) by simp
      then have "pre ! j \<le> mp" using Cons.prems(4) by blast
      then show "(pre @ [x]) ! j < x" using True \<open>j < i\<close> Cons.prems(1) by (simp add: nth_append)
    qed
    have "argmax_from xs (Suc i) x i < length ((pre @ [x]) @ xs) \<and>
      (\<forall>y \<in> set ((pre @ [x]) @ xs). y \<le> ((pre @ [x]) @ xs) ! argmax_from xs (Suc i) x i) \<and>
      (\<forall>j < argmax_from xs (Suc i) x i. ((pre @ [x]) @ xs) ! j < ((pre @ [x]) @ xs) ! argmax_from xs (Suc i) x i)"
    proof (rule Cons.IH)
      show "length (pre @ [x]) = Suc i" using Cons.prems(1) by simp
      show "i < Suc i" by simp
      show "(pre @ [x]) ! i = x" using Cons.prems(1) by (simp add: nth_append)
      show "\<forall>y \<in> set (pre @ [x]). y \<le> x" using Cons.prems(4) True by auto
      show "\<forall>j < i. (pre @ [x]) ! j < x" by (rule pre_lt)
    qed
    then show ?thesis using True by simp
  next
    case False
    have "argmax_from xs (Suc i) mp mi < length ((pre @ [x]) @ xs) \<and>
      (\<forall>y \<in> set ((pre @ [x]) @ xs). y \<le> ((pre @ [x]) @ xs) ! argmax_from xs (Suc i) mp mi) \<and>
      (\<forall>j < argmax_from xs (Suc i) mp mi. ((pre @ [x]) @ xs) ! j < ((pre @ [x]) @ xs) ! argmax_from xs (Suc i) mp mi)"
    proof (rule Cons.IH)
      show "length (pre @ [x]) = Suc i" using Cons.prems(1) by simp
      show "mi < Suc i" using Cons.prems(2) by simp
      show "(pre @ [x]) ! mi = mp" using Cons.prems(1,2,3) by (simp add: nth_append)
      show "\<forall>y \<in> set (pre @ [x]). y \<le> mp" using Cons.prems(4) False by auto
      show "\<forall>j < mi. (pre @ [x]) ! j < mp" using Cons.prems(1,2,5) by (simp add: nth_append)
    qed
    then show ?thesis using False by simp
  qed
qed

lemma np_argmax_spec:
  assumes "np_argmax a = Inr k"
  shows "k < length a \<and> a ! k = Max (set a) \<and> (\<forall>j < k. a ! j < a ! k)"
proof -
  from assms obtain x xs where a: "a = x # xs" and k: "k = argmax_from xs 1 x 0"
    by (auto simp: np_argmax_def split: list.splits)
  have spec: "k < length ([x] @ xs) \<and> (\<forall>y \<in> set ([x] @ xs). y \<le> ([x] @ xs) ! k) \<and>
      (\<forall>j < k. ([x] @ xs) ! j < ([x] @ xs) ! k)"
    unfolding k by (rule argmax_from_spec) simp_all
  then have lt: "k < length a" and ge: "\<forall>y \<in> set a. y \<le> a ! k" and first: "\<forall>j < k. a ! j < a ! k"
    using a by simp_all
  have "a ! k \<in> set a" using lt by simp
  then have "Max (set a) = a ! k" using ge by (intro Max_eqI) auto
  then show ?thesis using lt first by simp
qed

lemma np_argmax_nonempty: "a \<noteq> [] \<Longrightarrow> \<exists>k. np_argmax a = Inr k"
  by (cases a) (simp_all add: np_argmax_def)

lemma best_box:
  assumes "bs \<noteq> []"
  shows "\<exists>k. np_argmax (map conf bs) = Inr k \<and> k < length bs \<and> getitem bs k = Inr (bs ! k) \<and>
             conf (bs ! k) = Max (conf ` set bs) \<and> (\<forall>j < k. conf (bs ! j) < conf (bs ! k))"
proof -
  from assms obtain k where k: "np_argmax (map conf bs) = Inr k"
    using np_argmax_nonempty [of "map conf bs"] by auto
  note spec = np_argmax_spec [OF k]
  have lt: "k < length bs" using spec by simp
  have mx: "map conf bs ! k = Max (set (map conf bs))" using spec by blast
  have first: "\<forall>j < k. map conf bs ! j < map conf bs ! k" using spec by blast
  have "conf (bs ! k) = Max (conf ` set bs)" using mx lt by simp
  moreover have "\<forall>j < k. conf (bs ! j) < conf (bs ! k)"
  proof (intro allI impI)
    fix j assume "j < k"
    then have "map conf bs ! j < map conf bs ! k" using first by blast
    then show "conf (bs ! j) < conf (bs ! k)" using \<open>j < k\<close> lt by simp
  qed
  ultimately show ?thesis using k lt by (auto simp: getitem_def)
qed


lemma floor_rat_numeral [simp]:
  "\<lfloor>numeral p / numeral q :: rat\<rfloor> = numeral p div numeral q"
  using floor_divide_of_int_eq [of "numeral p" "numeral q", where ?'a = rat] by simp

lemma Max_conf_boxes0: "Max (conf ` set boxes0) = 9 / 10"
  by (simp add: boxes0_def)

lemma detect_plate_selected:
  assumes "predict m img c d = Inr (r # rs)" and "boxes r = Some bs" and "bs \<noteq> []"
  shows "\<exists>k < length bs. detect_plate m img c d = Inr (Some (xyxy (bs ! k), conf (bs ! k))) \<and>
           conf (bs ! k) = Max (conf ` set bs) \<and> (\<forall>j < k. conf (bs ! j) < conf (bs ! k))"
proof -
  from best_box [OF assms(3)] obtain k where k: "np_argmax (map conf bs) = Inr k"
    "k < length bs" "getitem bs k = Inr (bs ! k)" "conf (bs ! k) = Max (conf ` set bs)"
    "\<forall>j < k. conf (bs ! j) < conf (bs ! k)" by blast
  have "detect_plate m img c d = Inr (Some (xyxy (bs ! k), conf (bs ! k)))"
    using assms k(1,3) by (simp add: detect_plate_def)
  then show ?thesis using k(2,4,5) by blast
qed

lemma detect_plate_none:
  assumes "predict m img c d = Inr results" and "no_boxes results"
  shows "detect_plate m img c d = Inr None"
  using assms by (simp add: detect_plate_def no_boxes_def split: list.splits option.splits)

lemma detect_main_selected:
  assumes "os_path_exists e (image a)" and "Image_open e (image a) = Inr img"
    and "YOLO e (yolo_model a) = Inr m"
    and "predict m img (min_conf a) (snd (auto_device_detect e (device a))) = Inr (r # rs)"
    and "boxes r = Some bs" and "bs \<noteq> []"
  shows "\<exists>k < length bs. conf (bs ! k) = Max (conf ` set bs) \<and>
          (\<forall>j \<in> set (printed (plate_detect_main e a)).
             json_get j ''confidence'' = Some (JFloat (conf (bs ! k))) \<and>
             json_get j ''bbox'' = Some (json_bbox (clamp_box (xyxy (bs ! k)))))"
proof -
  from best_box [OF assms(6)] obtain k where k: "np_argmax (map conf bs) = Inr k"
    "k < length bs" "getitem bs k = Inr (bs ! k)" "conf (bs ! k) = Max (conf ` set bs)" by blast
  have "\<forall>j \<in> set (printed (plate_detect_main e a)).
             json_get j ''confidence'' = Some (JFloat (conf (bs ! k))) \<and>
             json_get j ''bbox'' = Some (json_bbox (clamp_box (xyxy (bs ! k))))"
    using assms k(1,3)
    by (simp add: plate_detect_main_def case_prod_beta Let_def detect_result_def json_get_def
        split: sum.splits option.splits)
  then show ?thesis using k(2,4) by blast
qed

lemma local_main_selected:
  assumes "os_path_exists e (image a)" and "Image_open e (image a) = Inr img"
    and "snd (auto_device_local e (device a)) = Inr d"
    and "YOLO e (yolo_model a) = Inr m"
    and "detect_plate m img (min_conf a) d = Inr (Some (q, c))"
  shows "\<forall>j \<in> set (printed (plate_local_main e a)).
             json_get j ''confidence'' = Some (JFloat c) \<and>
             json_get j ''bbox'' = Some (json_bbox (clamp_box q))"
  using assms
  by (simp add: plate_local_main_def case_prod_beta Let_def json_get_def
      split: sum.splits option.splits)


text \<open>
  Claim C3. Whenever the detection model returns a non-empty list of candidate boxes, the
  one detection kept has the maximum of all returned confidences: \<open>detect_plate\<close> of the
  reader script returns a box of the list with that confidence, and every JSON object
  printed by \<open>main\<close> of either script after such a detection reports it as
  \<open>confidence\<close>.
\<close>

theorem C3_selected_confidence_is_max:
  assumes "bs \<noteq> []"
  shows
   "(predict m img c d = Inr (r # rs) \<and> boxes r = Some bs \<longrightarrow>
       (\<exists>bx \<in> set bs. detect_plate m img c d = Inr (Some (xyxy bx, conf bx)) \<and>
                      conf bx = Max (conf ` set bs))) \<and>
    (os_path_exists e (image a) \<and> Image_open e (image a) = Inr img \<and>
     YOLO e (yolo_model a) = Inr m \<and>
     predict m img (min_conf a) (snd (auto_device_detect e (device a))) = Inr (r # rs) \<and>
     boxes r = Some bs \<longrightarrow>
       (\<forall>j \<in> set (printed (plate_detect_main e a)).
          json_get j ''confidence'' = Some (JFloat (Max (conf ` set bs))))) \<and>
    (os_path_exists e (image a') \<and> Image_open e (image a') = Inr img \<and>
     snd (auto_device_local e (device a')) = Inr d' \<and>
     YOLO e (yolo_model a') = Inr m \<and>
     predict m img (min_conf a') d' = Inr (r # rs) \<and>
     boxes r = Some bs \<longrightarrow>
       (\<forall>j \<in> set (printed (plate_local_main e a')).
          json_get j ''confidence'' = Some (JFloat (Max (conf ` set bs)))))"
proof (intro conjI impI)
  assume h: "predict m img c d = Inr (r # rs) \<and> boxes r = Some bs"
  then obtain k where "k < length bs"
    "detect_plate m img c d = Inr (Some (xyxy (bs ! k), conf (bs ! k)))"
    "conf (bs ! k) = Max (conf ` set bs)"
    using detect_plate_selected [of m img c d r rs bs] assms by blast
  then show "\<exists>bx \<in> set bs. detect_plate m img c d = Inr (Some (xyxy bx, conf bx)) \<and>
                      conf bx = Max (conf ` set bs)"
    using nth_mem by blast
next
  assume h: "os_path_exists e (image a) \<and> Image_open e (image a) = Inr img \<and>
     YOLO e (yolo_model a) = Inr m \<and>
     predict m img (min_conf a) (snd (auto_device_detect e (device a))) = Inr (r # rs) \<and>
     boxes r = Some bs"
  then show "\<forall>j \<in> set (printed (plate_detect_main e a)).
          json_get j ''confidence'' = Some (JFloat (Max (conf ` set bs)))"
    using detect_main_selected [of e a img m r rs bs] assms by force
next
  assume h: "os_path_exists e (image a') \<and> Image_open e (image a') = Inr img \<and>
     snd (auto_device_local e (device a')) = Inr d' \<and>
     YOLO e (yolo_model a') = Inr m \<and>
     predict m img (min_conf a') d' = Inr (r # rs) \<and>
     boxes r = Some bs"
  then obtain k where k: "detect_plate m img (min_conf a') d' = Inr (Some (xyxy (bs ! k), conf (bs ! k)))"
    "conf (bs ! k) = Max (conf ` set bs)"
    using detect_plate_selected [of m img "min_conf a'" d' r rs bs] assms by blast
  show "\<forall>j \<in> set (printed (plate_local_main e a')).
          json_get j ''confidence'' = Some (JFloat (Max (conf ` set bs)))"
    using local_main_selected [of e a' img d' m "xyxy (bs ! k)" "conf (bs ! k)"] h k by simp
qed

lemmas ex_defs = env0_def dargs0_def largs0_def model0_def boxes0_def ocr0_def ocr_result0_def
  img0_def plate0_def

lemmas run_defs = plate_detect_def imports_detect_def plate_detect_main_def plate_local_def imports_local_def plate_local_main_def
  emit_def emits_def halt_def auto_device_detect_def auto_device_local_def detect_result_def
  detect_not_detected_def np_argmax_def getitem_def clamp_box_def clamp0_def py_int_def
  json_bbox_def json_str_opt_def elapsed_ms_of_def detect_plate_def ocr_plate_def
  guarded_imports_local_def

lemma run_detect_env0:
  "plate_detect_main env0 dargs0 =
     ([ImageOpen ''car.jpg'', CudaCheck, LoadYOLO ''models/plate_yolo.pt'',
       Predict img0 (35 / 100) ''0'', Crop (0, 3, 5000, 40), Save ''crop.png'',
       Print (JObj [(''detected'', JBool True), (''confidence'', JFloat (9 / 10)),
                    (''bbox'', JList [JInt 0, JInt 3, JInt 5000, JInt 40]),
                    (''elapsed_ms'', JInt 500), (''crop_path'', JStr ''crop.png'')])],
      Exit 0)"
  by (simp add: run_defs ex_defs)

lemma run_local_env0:
  "plate_local_main env0 largs0 =
     ([ImageOpen ''car.jpg'', CudaCheck, LoadYOLO ''models/plate_yolo.pt'',
       Predict img0 (35 / 100) ''0'', Crop (0, 3, 5000, 40),
       NewPaddleOCR ''japan'' True, Ocr plate0,
       Print (JObj [(''plate'', JStr ''12-34''), (''confidence'', JFloat (9 / 10)),
                    (''ocr_confidence'', JFloat (4 / 5)),
                    (''bbox'', JList [JInt 0, JInt 3, JInt 5000, JInt 40]),
                    (''elapsed_ms'', JInt 500)])],
      Exit 0)"
  by (simp add: run_defs ex_defs)

theorem C3_selected_confidence_is_max_witness:
  "boxes0 \<noteq> [] \<and>
   Max (conf ` set boxes0) = 9 / 10 \<and>
   detect_plate model0 img0 (35 / 100) ''0'' = Inr (Some ((- 5 / 2, 7 / 2, 5000, 40), 9 / 10)) \<and>
   printed (plate_detect_main env0 dargs0) =
     [JObj [(''detected'', JBool True), (''confidence'', JFloat (9 / 10)),
            (''bbox'', JList [JInt 0, JInt 3, JInt 5000, JInt 40]),
            (''elapsed_ms'', JInt 500), (''crop_path'', JStr ''crop.png'')]] \<and>
   json_get (hd (printed (plate_detect_main env0 dargs0))) ''confidence'' =
     Some (JFloat (Max (conf ` set boxes0))) \<and>
   json_get (hd (printed (plate_local_main env0 largs0))) ''confidence'' =
     Some (JFloat (Max (conf ` set boxes0)))"
proof -
  have ne: "boxes0 \<noteq> []" by (simp add: boxes0_def)
  have p: "predict model0 img0 (35 / 100) ''0'' = Inr (Results (Some boxes0) # []) \<and>
           boxes (Results (Some boxes0)) = Some boxes0"
    by (simp add: model0_def)
  have pd: "printed (plate_detect_main env0 dargs0) =
     [JObj [(''detected'', JBool True), (''confidence'', JFloat (9 / 10)),
            (''bbox'', JList [JInt 0, JInt 3, JInt 5000, JInt 40]),
            (''elapsed_ms'', JInt 500), (''crop_path'', JStr ''crop.png'')]]"
    by (simp add: run_detect_env0 printed_def)
  have pl: "printed (plate_local_main env0 largs0) =
     [JObj [(''plate'', JStr ''12-34''), (''confidence'', JFloat (9 / 10)),
                    (''ocr_confidence'', JFloat (4 / 5)),
                    (''bbox'', JList [JInt 0, JInt 3, JInt 5000, JInt 40]),
                    (''elapsed_ms'', JInt 500)]]"
    by (simp add: run_local_env0 printed_def)
  have hdet: "os_path_exists env0 (image dargs0) \<and> Image_open env0 (image dargs0) = Inr img0 \<and>
     YOLO env0 (yolo_model dargs0) = Inr model0 \<and>
     predict model0 img0 (min_conf dargs0) (snd (auto_device_detect env0 (device dargs0))) =
       Inr (Results (Some boxes0) # []) \<and>
     boxes (Results (Some boxes0)) = Some boxes0"
    by (simp add: env0_def dargs0_def model0_def)
  have hl: "os_path_exists env0 (image largs0) \<and> Image_open env0 (image largs0) = Inr img0 \<and>
     snd (auto_device_local env0 (device largs0)) = Inr ''0'' \<and>
     YOLO env0 (yolo_model largs0) = Inr model0 \<and>
     predict model0 img0 (min_conf largs0) ''0'' = Inr (Results (Some boxes0) # []) \<and>
     boxes (Results (Some boxes0)) = Some boxes0"
    by (simp add: env0_def largs0_def model0_def auto_device_local_def)
  note c3 = C3_selected_confidence_is_max [OF ne, of model0 img0 "35 / 100" "''0''"
      "Results (Some boxes0)" "[]" env0 dargs0 largs0 "''0''"]
  from c3 p have "\<exists>bx \<in> set boxes0.
      detect_plate model0 img0 (35 / 100) ''0'' = Inr (Some (xyxy bx, conf bx)) \<and>
      conf bx = Max (conf ` set boxes0)" by blast
  then have dp: "detect_plate model0 img0 (35 / 100) ''0'' =
      Inr (Some ((- 5 / 2, 7 / 2, 5000, 40), 9 / 10))"
    by (simp add: run_defs model0_def boxes0_def)
  from c3 hdet have "\<forall>j \<in> set (printed (plate_detect_main env0 dargs0)).
          json_get j ''confidence'' = Some (JFloat (Max (conf ` set boxes0)))" by blast
  then have c1: "json_get (hd (printed (plate_detect_main env0 dargs0))) ''confidence'' =
     Some (JFloat (Max (conf ` set boxes0)))" by (simp add: pd)
  from c3 hl have "\<forall>j \<in> set (printed (plate_local_main env0 largs0)).
          json_get j ''confidence'' = Some (JFloat (Max (conf ` set boxes0)))" by blast
  then have c2: "json_get (hd (printed (plate_local_main env0 largs0))) ''confidence'' =
     Some (JFloat (Max (conf ` set boxes0)))" by (simp add: pl)
  show ?thesis using ne Max_conf_boxes0 dp pd c1 c2 by simp
qed

section \<open>No box detected\<close>

lemma local_main_none:
  assumes "os_path_exists e (image a)" and "Image_open e (image a) = Inr img"
    and "snd (auto_device_local e (device a)) = Inr d"
    and "YOLO e (yolo_model a) = Inr m"
    and "detect_plate m img (min_conf a) d = Inr None"
  shows "plate_local_main e a =
           (ImageOpen (image a) # fst (auto_device_local e (device a)) @
              [LoadYOLO (yolo_model a), Predict img (min_conf a) d,
               Print (JObj [(''plate'', JNull), (''confidence'', JFloat 0)])],
            Exit 0)"
  using assms
  by (simp add: plate_local_main_def case_prod_beta emit_def emits_def halt_def)

lemma no_ocr_in_check [simp]: "filter is_ocr_event (fst (auto_device_local e d)) = []"
  by (simp add: auto_device_local_def is_ocr_event_def)

text \<open>
  Claim C5. In the reader pipeline, when the detection stage yields no box (the model
  returns no result, a result without boxes, or an empty list of boxes, so that
  \<open>detect_plate\<close> returns \<^verbatim>\<open>None\<close>), the output is exactly
  \<^verbatim>\<open>{"plate": null, "confidence": 0.0}\<close>, the run ends with code 0, and the OCR model is
  neither constructed nor called.
\<close>

theorem C5_no_box_no_ocr:
  assumes "os_path_exists e (image a)" and "Image_open e (image a) = Inr img"
    and "snd (auto_device_local e (device a)) = Inr d"
    and "YOLO e (yolo_model a) = Inr m"
    and "predict m img (min_conf a) d = Inr results" and "no_boxes results"
  shows "detect_plate m img (min_conf a) d = Inr None \<and>
         printed (plate_local_main e a) = [JObj [(''plate'', JNull), (''confidence'', JFloat 0)]] \<and>
         filter is_ocr_event (fst (plate_local_main e a)) = [] \<and>
         snd (plate_local_main e a) = Exit 0"
proof -
  have none: "detect_plate m img (min_conf a) d = Inr None"
    using assms(5,6) by (rule detect_plate_none)
  note run = local_main_none [OF assms(1-4) none]
  have "printed (plate_local_main e a) = [JObj [(''plate'', JNull), (''confidence'', JFloat 0)]]"
    unfolding run by (simp add: printed_def auto_device_local_def)
  moreover have "filter is_ocr_event (fst (plate_local_main e a)) = []"
    unfolding run by (simp add: is_ocr_event_def)
  moreover have "snd (plate_local_main e a) = Exit 0"
    unfolding run by simp
  ultimately show ?thesis using none by simp
qed

theorem C5_no_box_no_ocr_witness:
  "no_boxes [Results (Some [])] \<and>
   detect_plate model_empty img0 (35 / 100) ''0'' = Inr None \<and>
   plate_local env_none_found largs0 =
     ([ImageOpen ''car.jpg'', CudaCheck, LoadYOLO ''models/plate_yolo.pt'',
       Predict img0 (35 / 100) ''0'',
       Print (JObj [(''plate'', JNull), (''confidence'', JFloat 0)])],
      Exit 0) \<and>
   printed (plate_local_main env_none_found largs0) =
     [JObj [(''plate'', JNull), (''confidence'', JFloat 0)]] \<and>
   filter is_ocr_event (fst (plate_local_main env_none_found largs0)) = []"
proof -
  have h: "os_path_exists env_none_found (image largs0)"
    "Image_open env_none_found (image largs0) = Inr img0"
    "snd (auto_device_local env_none_found (device largs0)) = Inr ''0''"
    "YOLO env_none_found (yolo_model largs0) = Inr model_empty"
    "predict model_empty img0 (min_conf largs0) ''0'' = Inr [Results (Some [])]"
    "no_boxes [Results (Some [])]"
    by (simp_all add: env_none_found_def env0_def largs0_def model_empty_def
        auto_device_local_def no_boxes_def)
  have r: "plate_local env_none_found largs0 =
     ([ImageOpen ''car.jpg'', CudaCheck, LoadYOLO ''models/plate_yolo.pt'',
       Predict img0 (35 / 100) ''0'',
       Print (JObj [(''plate'', JNull), (''confidence'', JFloat 0)])],
      Exit 0)"
    by (simp add: run_defs env_none_found_def model_empty_def ex_defs)
  show ?thesis
    using C5_no_box_no_ocr [OF h] h(6) r by (simp add: largs0_def)
qed

section \<open>No box detected, detector-only script\<close>

lemma py_int_nonneg: "0 \<le> x \<Longrightarrow> 0 \<le> py_int x"
  by (simp add: py_int_def)

lemma elapsed_ms_nonneg: "s \<le> clock e 1 \<Longrightarrow> 0 \<le> elapsed_ms_of e s"
  by (simp add: elapsed_ms_of_def py_int_nonneg)

lemma detect_main_none:
  assumes "os_path_exists e (image a)" and "Image_open e (image a) = Inr img"
    and "YOLO e (yolo_model a) = Inr m"
    and "predict m img (min_conf a) (snd (auto_device_detect e (device a))) = Inr results"
    and "no_boxes results"
  shows "plate_detect_main e a =
           (ImageOpen (image a) # fst (auto_device_detect e (device a)) @
              [LoadYOLO (yolo_model a),
               Predict img (min_conf a) (snd (auto_device_detect e (device a))),
               Print (JObj [(''detected'', JBool False), (''confidence'', JFloat 0),
                            (''elapsed_ms'', JInt (elapsed_ms_of e (clock e 0)))])],
            Exit 0)"
  using assms
  by (simp add: plate_detect_main_def case_prod_beta emit_def emits_def halt_def no_boxes_def
      detect_not_detected_def split: list.splits option.splits)

text \<open>
  Claim C6, as the code has it. When the detection model returns zero boxes (no result, a
  result without boxes, or an empty list of boxes), the detector-only script prints
  exactly \<^verbatim>\<open>{"detected": false, "confidence": 0.0, "elapsed_ms": n}\<close>, with no \<open>bbox\<close>
  key, and ends with code 0. The integer \<open>n\<close> is the truncated difference of two readings
  of the wall clock, \<^verbatim>\<open>time.time()\<close>: it is non-negative when the second reading is not
  earlier than the first, and nothing in the script guards against a clock that was set
  back in between.
\<close>

theorem C6_not_detected_output:
  assumes "os_path_exists e (image a)" and "Image_open e (image a) = Inr img"
    and "YOLO e (yolo_model a) = Inr m"
    and "predict m img (min_conf a) (snd (auto_device_detect e (device a))) = Inr results"
    and "no_boxes results"
  shows "printed (plate_detect_main e a) =
           [JObj [(''detected'', JBool False), (''confidence'', JFloat 0),
                  (''elapsed_ms'', JInt (elapsed_ms_of e (clock e 0)))]] \<and>
         snd (plate_detect_main e a) = Exit 0 \<and>
         (clock e 0 \<le> clock e 1 \<longrightarrow> 0 \<le> elapsed_ms_of e (clock e 0))"
proof -
  note run = detect_main_none [OF assms]
  have "printed (plate_detect_main e a) =
           [JObj [(''detected'', JBool False), (''confidence'', JFloat 0),
                  (''elapsed_ms'', JInt (elapsed_ms_of e (clock e 0)))]]"
    unfolding run by (simp add: printed_def auto_device_detect_def split: option.splits)
  moreover have "snd (plate_detect_main e a) = Exit 0"
    unfolding run by simp
  ultimately show ?thesis by (simp add: elapsed_ms_nonneg)
qed

lemma run_detect_none_found:
  "plate_detect env_none_found dargs0 =
     ([ImageOpen ''car.jpg'', CudaCheck, LoadYOLO ''models/plate_yolo.pt'',
       Predict img0 (35 / 100) ''0'',
       Print (JObj [(''detected'', JBool False), (''confidence'', JFloat 0),
                    (''elapsed_ms'', JInt 500)])],
      Exit 0)"
  by (simp add: run_defs env_none_found_def model_empty_def ex_defs)

theorem C6_not_detected_output_witness:
  "no_boxes [Results (Some [])] \<and>
   clock env_none_found 0 \<le> clock env_none_found 1 \<and>
   elapsed_ms_of env_none_found (clock env_none_found 0) = 500 \<and>
   printed (plate_detect_main env_none_found dargs0) =
     [JObj [(''detected'', JBool False), (''confidence'', JFloat 0),
            (''elapsed_ms'', JInt 500)]] \<and>
   snd (plate_detect_main env_none_found dargs0) = Exit 0 \<and>
   json_get (hd (printed (plate_detect_main env_none_found dargs0))) ''bbox'' = None"
proof -
  have h: "os_path_exists env_none_found (image dargs0)"
    "Image_open env_none_found (image dargs0) = Inr img0"
    "YOLO env_none_found (yolo_model dargs0) = Inr model_empty"
    "predict model_empty img0 (min_conf dargs0)
       (snd (auto_device_detect env_none_found (device dargs0))) = Inr [Results (Some [])]"
    "no_boxes [Results (Some [])]"
    by (simp_all add: env_none_found_def env0_def dargs0_def model_empty_def no_boxes_def)
  have el: "elapsed_ms_of env_none_found (clock env_none_found 0) = 500"
    by (simp add: elapsed_ms_of_def env_none_found_def env0_def py_int_def)
  have ck: "clock env_none_found 0 \<le> clock env_none_found 1"
    by (simp add: env_none_found_def env0_def)
  show ?thesis
    using C6_not_detected_output [OF h] h(5) el ck by (simp add: json_get_def)
qed

theorem C6_clock_set_back_counterexample:
  "predict model_empty img0 (35 / 100) ''0'' = Inr [Results (Some [])] \<and>
   no_boxes [Results (Some [])] \<and>
   plate_detect env_clock_back dargs0 =
     ([ImageOpen ''car.jpg'', CudaCheck, LoadYOLO ''models/plate_yolo.pt'',
       Predict img0 (35 / 100) ''0'',
       Print (JObj [(''detected'', JBool False), (''confidence'', JFloat 0),
                    (''elapsed_ms'', JInt (- 1000))])],
      Exit 0)"
  by (simp add: run_defs env_clock_back_def env_none_found_def model_empty_def ex_defs
      no_boxes_def)

section \<open>The reported box and the cropped region\<close>

lemma crops_halt [simp]: "crops (halt t) = []"
  by (simp add: crops_def halt_def)

lemma crops_emit [simp]:
  "crops (emit ev r) = (case ev of Crop b \<Rightarrow> [b] | _ \<Rightarrow> []) @ crops r"
  by (simp add: crops_def emit_def)

lemma crops_emits_local [simp]: "crops (emits (fst (auto_device_local e d)) r) = crops r"
  by (simp add: crops_def emits_def auto_device_local_def)

lemma ocr_inputs_halt [simp]: "ocr_inputs (halt t) = []"
  by (simp add: ocr_inputs_def halt_def)

lemma ocr_inputs_emit [simp]:
  "ocr_inputs (emit ev r) = (case ev of Ocr i \<Rightarrow> [i] | _ \<Rightarrow> []) @ ocr_inputs r"
  by (simp add: ocr_inputs_def emit_def)

lemma ocr_inputs_emits_local [simp]:
  "ocr_inputs (emits (fst (auto_device_local e d)) r) = ocr_inputs r"
  by (simp add: ocr_inputs_def emits_def auto_device_local_def)

lemma local_main_bbox:
  assumes "j \<in> set (printed (plate_local_main e a))" and "json_get j ''bbox'' = Some v"
  shows "\<exists>q c img m d plate_img.
           v = json_bbox (clamp_box q) \<and>
           Image_open e (image a) = Inr img \<and>
           snd (auto_device_local e (device a)) = Inr d \<and>
           YOLO e (yolo_model a) = Inr m \<and>
           detect_plate m img (min_conf a) d = Inr (Some (q, c)) \<and>
           Image_crop e img (clamp_box q) = Inr plate_img \<and>
           crops (plate_local_main e a) = [clamp_box q] \<and>
           ocr_inputs (plate_local_main e a) = [plate_img]"
  using assms
  apply (auto simp add: plate_local_main_def case_prod_beta Let_def json_get_def
      split: sum.splits option.splits list.splits py_exc.splits if_splits)
  done

lemma local_script_main:
  assumes "j \<in> set (printed (plate_local e a))" and "json_get j ''bbox'' = Some v"
  shows "plate_local e a = plate_local_main e a"
  using assms
  by (auto simp add: plate_local_def imports_local_def json_get_def split: option.splits py_exc.splits)

text \<open>
  Claim C10. In the reader pipeline, whenever a printed JSON object has a \<open>bbox\<close>, that
  \<open>bbox\<close> is the list \<^verbatim>\<open>[x1, y1, x2, y2]\<close> of four integers, the clamped coordinates of the
  box that \<open>detect_plate\<close> returned; the image was cropped once, from the opened image,
  with exactly these four integers, and the result of that crop is the one image given
  to the recognition call. So the reported box is the region the recognised text came
  from.
\<close>

theorem C10_bbox_is_cropped_region:
  assumes "j \<in> set (printed (plate_local e a))" and "json_get j ''bbox'' = Some v"
  shows "\<exists>x1 y1 x2 y2 q c img m d plate_img.
           v = JList [JInt x1, JInt y1, JInt x2, JInt y2] \<and>
           Image_open e (image a) = Inr img \<and>
           snd (auto_device_local e (device a)) = Inr d \<and>
           YOLO e (yolo_model a) = Inr m \<and>
           detect_plate m img (min_conf a) d = Inr (Some (q, c)) \<and>
           clamp_box q = (x1, y1, x2, y2) \<and>
           0 \<le> x1 \<and> 0 \<le> y1 \<and> 0 \<le> x2 \<and> 0 \<le> y2 \<and>
           Image_crop e img (x1, y1, x2, y2) = Inr plate_img \<and>
           crops (plate_local e a) = [(x1, y1, x2, y2)] \<and>
           ocr_inputs (plate_local e a) = [plate_img]"
proof -
  have eq: "plate_local e a = plate_local_main e a"
    using assms by (rule local_script_main)
  have mem: "j \<in> set (printed (plate_local_main e a))"
    using assms(1) unfolding eq .
  from local_main_bbox [OF mem assms(2)] obtain q c img m d plate_img where
    w: "v = json_bbox (clamp_box q)" "Image_open e (image a) = Inr img"
       "snd (auto_device_local e (device a)) = Inr d" "YOLO e (yolo_model a) = Inr m"
       "detect_plate m img (min_conf a) d = Inr (Some (q, c))"
       "Image_crop e img (clamp_box q) = Inr plate_img"
       "crops (plate_local_main e a) = [clamp_box q]"
       "ocr_inputs (plate_local_main e a) = [plate_img]"
    by blast
  obtain x1 y1 x2 y2 where b: "clamp_box q = (x1, y1, x2, y2)"
    by (cases "clamp_box q") blast
  have v: "v = JList [JInt x1, JInt y1, JInt x2, JInt y2]"
    using w(1) b by (simp add: json_bbox_def)
  have nn: "0 \<le> x1 \<and> 0 \<le> y1 \<and> 0 \<le> x2 \<and> 0 \<le> y2"
    using b by (cases q) (auto simp add: clamp_box_def clamp0_def py_int_def)
  have cr: "Image_crop e img (x1, y1, x2, y2) = Inr plate_img"
    using w(6) unfolding b .
  have cs: "crops (plate_local e a) = [(x1, y1, x2, y2)]"
    using w(7) unfolding b eq .
  have oi: "ocr_inputs (plate_local e a) = [plate_img]"
    using w(8) unfolding eq .
  from v w(2,3,4,5) b nn cr cs oi show ?thesis by blast
qed

theorem C10_bbox_is_cropped_region_witness:
  "json_get (hd (printed (plate_local env0 largs0))) ''bbox'' =
     Some (JList [JInt 0, JInt 3, JInt 5000, JInt 40]) \<and>
   detect_plate model0 img0 (35 / 100) ''0'' = Inr (Some ((- 5 / 2, 7 / 2, 5000, 40), 9 / 10)) \<and>
   clamp_box (- 5 / 2, 7 / 2, 5000, 40) = (0, 3, 5000, 40) \<and>
   Image_open env0 (image largs0) = Inr img0 \<and>
   Image_crop env0 img0 (0, 3, 5000, 40) = Inr plate0 \<and>
   crops (plate_local env0 largs0) = [(0, 3, 5000, 40)] \<and>
   ocr_inputs (plate_local env0 largs0) = [plate0]"
proof -
  have r: "plate_local env0 largs0 = plate_local_main env0 largs0"
    by (simp add: plate_local_def imports_local_def guarded_imports_local_def env0_def)
  have p: "printed (plate_local env0 largs0) =
     [JObj [(''plate'', JStr ''12-34''), (''confidence'', JFloat (9 / 10)),
            (''ocr_confidence'', JFloat (4 / 5)),
            (''bbox'', JList [JInt 0, JInt 3, JInt 5000, JInt 40]),
            (''elapsed_ms'', JInt 500)]]"
    by (simp add: r run_local_env0 printed_def)
  have j: "hd (printed (plate_local env0 largs0)) \<in> set (printed (plate_local env0 largs0))"
    by (simp add: p)
  have g: "json_get (hd (printed (plate_local env0 largs0))) ''bbox'' =
      Some (JList [JInt 0, JInt 3, JInt 5000, JInt 40])"
    by (simp add: p json_get_def)
  have dp: "detect_plate model0 img0 (35 / 100) ''0'' =
      Inr (Some ((- 5 / 2, 7 / 2, 5000, 40), 9 / 10))"
    by (simp add: run_defs model0_def boxes0_def)
  have io: "Image_open env0 (image largs0) = Inr img0" by (simp add: env0_def)
  have ic: "Image_crop env0 img0 (0, 3, 5000, 40) = Inr plate0" by (simp add: env0_def)
  have cb: "clamp_box (- 5 / 2, 7 / 2, 5000, 40) = (0, 3, 5000, 40)"
    by (simp add: clamp_box_def clamp0_def py_int_def)
  have "crops (plate_local env0 largs0) = [(0, 3, 5000, 40)] \<and>
        ocr_inputs (plate_local env0 largs0) = [plate0]"
    using C10_bbox_is_cropped_region [of "hd (printed (plate_local env0 largs0))" env0 largs0
      "JList [JInt 0, JInt 3, JInt 5000, JInt 40]", OF j g]
  proof (elim exE conjE)
    fix x1 y1 x2 y2 q c img m d plate_img
    assume v: "JList [JInt 0, JInt 3, JInt 5000, JInt 40] = JList [JInt x1, JInt y1, JInt x2, JInt y2]"
      and o: "Image_open env0 (image largs0) = Inr img"
      and k: "Image_crop env0 img (x1, y1, x2, y2) = Inr plate_img"
      and cs: "crops (plate_local env0 largs0) = [(x1, y1, x2, y2)]"
      and oi: "ocr_inputs (plate_local env0 largs0) = [plate_img]"
    have "x1 = 0" "y1 = 3" "x2 = 5000" "y2 = 40" using v by simp_all
    moreover have "plate_img = plate0" using k by (simp add: env0_def)
    ultimately show ?thesis using cs oi by simp
  qed
  then show ?thesis using g dp io ic cb by simp
qed

section \<open>The reported coordinates\<close>



















section \<open>Text recognition\<close>

lemma scan_entries_append:
  "scan_entries (xs @ ys) best = scan_entries ys (scan_entries xs best)"
proof (induction xs arbitrary: best)
  case Nil
  then show ?case by simp
next
  case (Cons x xs)
  obtain bx t c where x: "x = (bx, (t, c))" by (metis surj_pair)
  obtain bt bc where best: "best = (bt, bc)" by (metis surj_pair)
  show ?case unfolding x best using Cons.IH by simp
qed

lemma scan_lines_concat:
  "scan_lines (map Some ls) best = Inr (scan_entries (concat ls) best)"
  by (induction ls arbitrary: best) (simp_all add: scan_entries_append)

lemma scan_lines_null: "None \<in> set ls \<Longrightarrow> scan_lines ls best = Inl NoneType_not_iterable"
proof (induction ls arbitrary: best)
  case Nil
  then show ?case by simp
next
  case (Cons l ls)
  then show ?case by (cases l) auto
qed

lemma scan_entries_none_better:
  "\<forall>en \<in> set es. entry_conf en \<le> bc \<Longrightarrow> scan_entries es (bt, bc) = (bt, bc)"
proof (induction es)
  case Nil
  then show ?case by simp
next
  case (Cons x es)
  obtain bx t c where x: "x = (bx, (t, c))" by (metis surj_pair)
  from Cons.prems have "c \<le> bc" by (simp add: x entry_conf_def)
  moreover have "scan_entries es (bt, bc) = (bt, bc)" using Cons by simp
  ultimately show ?case by (simp add: x)
qed

lemma scan_entries_some_better:
  "\<exists>en \<in> set es. bc < entry_conf en \<Longrightarrow>
   \<exists>k < length es.
     scan_entries es (bt, bc) = (Some (entry_text (es ! k)), entry_conf (es ! k)) \<and>
     bc < entry_conf (es ! k) \<and>
     (\<forall>en \<in> set es. entry_conf en \<le> entry_conf (es ! k)) \<and>
     (\<forall>i < k. entry_conf (es ! i) < entry_conf (es ! k))"
proof (induction es arbitrary: bt bc)
  case Nil
  then show ?case by simp
next
  case (Cons x es)
  obtain bx t c where x: "x = (bx, (t, c))" by (metis surj_pair)
  show ?case
  proof (cases "bc < c")
    case True
    note better = True
    show ?thesis
    proof (cases "\<exists>en \<in> set es. c < entry_conf en")
      case True
      from Cons.IH [OF True, of "Some t"] obtain k where k: "k < length es"
        "scan_entries es (Some t, c) = (Some (entry_text (es ! k)), entry_conf (es ! k))"
        "c < entry_conf (es ! k)"
        "\<forall>en \<in> set es. entry_conf en \<le> entry_conf (es ! k)"
        "\<forall>i < k. entry_conf (es ! i) < entry_conf (es ! k)" by blast
      have "Suc k < length (x # es)" using k(1) by simp
      moreover have "scan_entries (x # es) (bt, bc) =
          (Some (entry_text ((x # es) ! Suc k)), entry_conf ((x # es) ! Suc k))"
        using better k(2) by (simp add: x)
      moreover have "bc < entry_conf ((x # es) ! Suc k)" using better k(3) by simp
      moreover have "\<forall>en \<in> set (x # es). entry_conf en \<le> entry_conf ((x # es) ! Suc k)"
        using k(3,4) by (simp add: x entry_conf_def)
      moreover have "\<forall>i < Suc k. entry_conf ((x # es) ! i) < entry_conf ((x # es) ! Suc k)"
      proof (intro allI impI)
        fix i assume "i < Suc k"
        then show "entry_conf ((x # es) ! i) < entry_conf ((x # es) ! Suc k)"
          using k(3,5) by (cases i) (simp_all add: x entry_conf_def)
      qed
      ultimately show ?thesis by blast
    next
      case False
      then have le: "\<forall>en \<in> set es. entry_conf en \<le> c" by (auto simp: not_less)
      have "scan_entries (x # es) (bt, bc) = (Some t, c)"
        using better scan_entries_none_better [OF le, of "Some t"] by (simp add: x)
      then have "scan_entries (x # es) (bt, bc) =
          (Some (entry_text ((x # es) ! 0)), entry_conf ((x # es) ! 0))"
        by (simp add: x entry_conf_def entry_text_def)
      moreover have "bc < entry_conf ((x # es) ! 0)" using better by (simp add: x entry_conf_def)
      moreover have "\<forall>en \<in> set (x # es). entry_conf en \<le> entry_conf ((x # es) ! 0)"
        using le by (simp add: x entry_conf_def)
      ultimately show ?thesis by (intro exI [of _ 0]) simp
    qed
  next
    case False
    then have "\<exists>en \<in> set es. bc < entry_conf en"
      using Cons.prems by (auto simp: x entry_conf_def)
    from Cons.IH [OF this, of bt] obtain k where k: "k < length es"
      "scan_entries es (bt, bc) = (Some (entry_text (es ! k)), entry_conf (es ! k))"
      "bc < entry_conf (es ! k)"
      "\<forall>en \<in> set es. entry_conf en \<le> entry_conf (es ! k)"
      "\<forall>i < k. entry_conf (es ! i) < entry_conf (es ! k)" by blast
    have "Suc k < length (x # es)" using k(1) by simp
    moreover have "scan_entries (x # es) (bt, bc) =
        (Some (entry_text ((x # es) ! Suc k)), entry_conf ((x # es) ! Suc k))"
      using False k(2) by (simp add: x)
    moreover have "bc < entry_conf ((x # es) ! Suc k)" using k(3) by simp
    moreover have "\<forall>en \<in> set (x # es). entry_conf en \<le> entry_conf ((x # es) ! Suc k)"
      using False k(3,4) by (simp add: x entry_conf_def)
    moreover have "\<forall>i < Suc k. entry_conf ((x # es) ! i) < entry_conf ((x # es) ! Suc k)"
    proof (intro allI impI)
      fix i assume "i < Suc k"
      then show "entry_conf ((x # es) ! i) < entry_conf ((x # es) ! Suc k)"
        using False k(3,5) by (cases i) (simp_all add: x entry_conf_def)
    qed
    ultimately show ?thesis by blast
  qed
qed


lemma ocr_plate_scan:
  "ocr ocr' img = Inr (Some (map Some ls)) \<Longrightarrow> ls \<noteq> [] \<Longrightarrow>
   ocr_plate ocr' img = Inr (scan_entries (concat ls) (None, 0))"
  by (simp add: ocr_plate_def scan_lines_concat)

lemma ocr_plate_empty:
  "ocr ocr' img = Inr None \<or> ocr ocr' img = Inr (Some []) \<Longrightarrow> ocr_plate ocr' img = Inr (None, 0)"
  by (auto simp add: ocr_plate_def)

lemma ocr_plate_null_line:
  "ocr ocr' img = Inr (Some ls) \<Longrightarrow> None \<in> set ls \<Longrightarrow>
   ocr_plate ocr' img = Inl NoneType_not_iterable"
  by (auto simp add: ocr_plate_def scan_lines_null)

lemma ocr_plate_nonpositive:
  assumes "ocr ocr' img = Inr (Some (map Some ls))"
    and "\<forall>en \<in> set (concat ls). entry_conf en \<le> 0"
  shows "ocr_plate ocr' img = Inr (None, 0)"
proof (cases "ls = []")
  case True
  then show ?thesis using assms(1) by (simp add: ocr_plate_empty)
next
  case False
  then show ?thesis
    using assms ocr_plate_scan [of ocr' img ls] scan_entries_none_better [of "concat ls" 0 None]
    by simp
qed

lemma ocr_plate_positive:
  assumes "ocr ocr' img = Inr (Some (map Some ls))"
    and "\<exists>en \<in> set (concat ls). 0 < entry_conf en"
  shows "\<exists>k < length (concat ls).
           ocr_plate ocr' img =
             Inr (Some (entry_text (concat ls ! k)), entry_conf (concat ls ! k)) \<and>
           entry_conf (concat ls ! k) = Max (entry_conf ` set (concat ls)) \<and>
           (\<forall>i < k. entry_conf (concat ls ! i) < entry_conf (concat ls ! k))"
proof -
  have ne: "ls \<noteq> []" using assms(2) by auto
  from scan_entries_some_better [OF assms(2), of None] obtain k where k: "k < length (concat ls)"
    "scan_entries (concat ls) (None, 0) =
       (Some (entry_text (concat ls ! k)), entry_conf (concat ls ! k))"
    "\<forall>en \<in> set (concat ls). entry_conf en \<le> entry_conf (concat ls ! k)"
    "\<forall>i < k. entry_conf (concat ls ! i) < entry_conf (concat ls ! k)" by blast
  have mem: "entry_conf (concat ls ! k) \<in> entry_conf ` set (concat ls)"
    using k(1) nth_mem by blast
  have "Max (entry_conf ` set (concat ls)) = entry_conf (concat ls ! k)"
  proof (rule Max_eqI)
    show "finite (entry_conf ` set (concat ls))" by simp
    show "\<And>y. y \<in> entry_conf ` set (concat ls) \<Longrightarrow> y \<le> entry_conf (concat ls ! k)"
      using k(3) by blast
    show "entry_conf (concat ls ! k) \<in> entry_conf ` set (concat ls)" by (rule mem)
  qed
  then show ?thesis
    using k(1,2,4) ocr_plate_scan [OF assms(1) ne] by auto
qed

lemma run_local_null_line:
  "plate_local env_null_line largs0 =
     ([ImageOpen ''car.jpg'', CudaCheck, LoadYOLO ''models/plate_yolo.pt'',
       Predict img0 (35 / 100) ''0'', Crop (0, 3, 5000, 40),
       NewPaddleOCR ''japan'' True, Ocr plate0],
      Uncaught NoneType_not_iterable)"
  by (simp add: run_defs env_null_line_def ocr_null_line_def ex_defs)

text \<open>
  Claim C9. A non-empty collection in which every entry has a confidence less than or
  equal to 0.0 should give no text with confidence 0.0, the outcome of an empty
  collection. The code does so when every line of the collection is a list, and not
  when a line is null: on the collection \<^verbatim>\<open>[None]\<close>, which is not empty and has no entry at
  all, the guard \<^verbatim>\<open>if not result\<close> of line 34 does not apply, line 39 iterates the null
  line and raises \<^verbatim>\<open>TypeError\<close>, \<open>ocr_plate\<close> returns nothing, and the reader script
  ends with the exception uncaught and no JSON object printed.
\<close>

theorem C9_null_line_raises:
  "ocr ocr_null_line plate0 = Inr (Some [None]) \<and>
   ocr_plate ocr_null_line plate0 = Inl NoneType_not_iterable \<and>
   ocr_plate ocr_null_line plate0 \<noteq> Inr (None, 0) \<and>
   ocr_plate ocr_zero plate0 = Inr (None, 0) \<and>
   snd (plate_local env_null_line largs0) = Uncaught NoneType_not_iterable \<and>
   printed (plate_local env_null_line largs0) = []"
  by (simp add: run_local_null_line printed_def ocr_null_line_def ocr_zero_def ocr_plate_def)

text \<open>
  Claim C7, as the code has it. For a collection returned by the OCR call none of whose
  lines is null: if the collection is null or empty, or no entry of it has a confidence
  greater than 0.0, \<open>ocr_plate\<close> reports no text with confidence 0.0; otherwise it returns
  the text and the confidence of the first entry, in the order of the scan over all
  nested entries, whose confidence is the maximum, and discards the rest.
\<close>

theorem C7_best_text_selection:
  assumes "ocr ocr' img = Inr res"
  shows "(res = None \<or> res = Some [] \<longrightarrow> ocr_plate ocr' img = Inr (None, 0)) \<and>
         (\<forall>ls. res = Some (map Some ls) \<and> (\<forall>en \<in> set (concat ls). entry_conf en \<le> 0) \<longrightarrow>
            ocr_plate ocr' img = Inr (None, 0)) \<and>
         (\<forall>ls. res = Some (map Some ls) \<and> (\<exists>en \<in> set (concat ls). 0 < entry_conf en) \<longrightarrow>
            (\<exists>k < length (concat ls).
               ocr_plate ocr' img =
                 Inr (Some (entry_text (concat ls ! k)), entry_conf (concat ls ! k)) \<and>
               entry_conf (concat ls ! k) = Max (entry_conf ` set (concat ls)) \<and>
               (\<forall>i < k. entry_conf (concat ls ! i) < entry_conf (concat ls ! k))))"
proof (intro conjI allI impI)
  assume "res = None \<or> res = Some []"
  then show "ocr_plate ocr' img = Inr (None, 0)"
    using assms ocr_plate_empty [of ocr' img] by auto
next
  fix ls assume "res = Some (map Some ls) \<and> (\<forall>en \<in> set (concat ls). entry_conf en \<le> 0)"
  then show "ocr_plate ocr' img = Inr (None, 0)"
    using assms ocr_plate_nonpositive [of ocr' img ls] by simp
next
  fix ls assume "res = Some (map Some ls) \<and> (\<exists>en \<in> set (concat ls). 0 < entry_conf en)"
  then show "\<exists>k < length (concat ls).
               ocr_plate ocr' img =
                 Inr (Some (entry_text (concat ls ! k)), entry_conf (concat ls ! k)) \<and>
               entry_conf (concat ls ! k) = Max (entry_conf ` set (concat ls)) \<and>
               (\<forall>i < k. entry_conf (concat ls ! i) < entry_conf (concat ls ! k))"
    using assms ocr_plate_positive [of ocr' img ls] by simp
qed

theorem C7_best_text_selection_witness:
  "ocr ocr0 plate0 = Inr (Some (map Some ocr_result0)) \<and>
   0 < entry_conf (concat ocr_result0 ! 1) \<and>
   Max (entry_conf ` set (concat ocr_result0)) = 4 / 5 \<and>
   ocr_plate ocr0 plate0 = Inr (Some ''12-34'', 4 / 5) \<and>
   ocr ocr_zero plate0 = Inr (Some (map Some [[([(0, 0), (30, 10)], (''ABC'', 0))]])) \<and>
   ocr_plate ocr_zero plate0 = Inr (None, 0)"
proof -
  have h: "ocr ocr0 plate0 = Inr (Some (map Some ocr_result0))" by (simp add: ocr0_def)
  have pos: "\<exists>en \<in> set (concat ocr_result0). 0 < entry_conf en"
    by (simp add: ocr_result0_def entry_conf_def)
  have mx: "Max (entry_conf ` set (concat ocr_result0)) = 4 / 5"
    by (simp add: ocr_result0_def entry_conf_def)
  from C7_best_text_selection [OF h] pos obtain k where k: "k < length (concat ocr_result0)"
    "ocr_plate ocr0 plate0 =
       Inr (Some (entry_text (concat ocr_result0 ! k)), entry_conf (concat ocr_result0 ! k))"
    "entry_conf (concat ocr_result0 ! k) = Max (entry_conf ` set (concat ocr_result0))"
    "\<forall>i < k. entry_conf (concat ocr_result0 ! i) < entry_conf (concat ocr_result0 ! k)"
    by blast
  have len: "length (concat ocr_result0) = 3" by (simp add: ocr_result0_def)
  have c0: "entry_conf (concat ocr_result0 ! 0) = 3 / 10"
    and c1: "entry_conf (concat ocr_result0 ! 1) = 4 / 5"
    and c2: "entry_conf (concat ocr_result0 ! 2) = 4 / 5"
    and t1: "entry_text (concat ocr_result0 ! 1) = ''12-34''"
    by (simp_all add: ocr_result0_def entry_conf_def entry_text_def)
  have "k = 0 \<or> k = 1 \<or> k = 2" using k(1) len by auto
  then have "k = 1"
  proof (elim disjE)
    assume "k = 0" then show ?thesis using k(3) mx c0 by simp
  next
    assume "k = 1" then show ?thesis .
  next
    assume k2: "k = 2"
    then have "entry_conf (concat ocr_result0 ! 1) < entry_conf (concat ocr_result0 ! 2)"
      using k(4) by simp
    then show ?thesis using c1 c2 by simp
  qed
  then have best: "ocr_plate ocr0 plate0 = Inr (Some ''12-34'', 4 / 5)"
    using k(2) c1 t1 by simp
  have hz: "ocr ocr_zero plate0 = Inr (Some (map Some [[([(0, 0), (30, 10)], (''ABC'', 0))]]))"
    by (simp add: ocr_zero_def)
  have nz: "\<forall>en \<in> set (concat [[([(0::rat, 0::rat), (30, 10)], (''ABC'', 0::rat))]]).
      entry_conf en \<le> 0"
    by (simp add: entry_conf_def)
  from C7_best_text_selection [OF hz] nz have zero: "ocr_plate ocr_zero plate0 = Inr (None, 0)"
    by blast
  show ?thesis using h mx c1 best hz zero by simp
qed

theorem C7_zero_confidence_counterexample:
  "ocr ocr_zero plate0 = Inr (Some [Some [([(0, 0), (30, 10)], (''ABC'', 0))]]) \<and>
   [Some [([(0, 0), (30, 10)], (''ABC'', 0::rat))]] \<noteq> ([] :: ocr_entry list option list) \<and>
   ocr_plate ocr_zero plate0 = Inr (None, 0) \<and>
   ocr_plate ocr_zero plate0 \<noteq> Inr (Some ''ABC'', 0)"
  by (simp add: ocr_zero_def ocr_plate_def)

section \<open>Device resolution\<close>

lemma cuda_checks_halt [simp]: "cuda_checks (halt t) = 0"
  by (simp add: cuda_checks_def halt_def)

lemma cuda_checks_emit [simp]:
  "cuda_checks (emit ev r) = (if ev = CudaCheck then 1 else 0) + cuda_checks r"
  by (simp add: cuda_checks_def emit_def)

lemma cuda_checks_emits [simp]:
  "cuda_checks (emits es r) = length (filter (\<lambda>ev. ev = CudaCheck) es) + cuda_checks r"
  by (simp add: cuda_checks_def emits_def)

lemma checks_detect [simp]:
  "length (filter (\<lambda>ev. ev = CudaCheck) (fst (auto_device_detect e d))) =
     length (fst (auto_device_detect e d))"
  by (simp add: auto_device_detect_def split: option.splits)

lemma checks_local [simp]:
  "length (filter (\<lambda>ev. ev = CudaCheck) (fst (auto_device_local e d))) =
     length (fst (auto_device_local e d))"
  by (simp add: auto_device_local_def)

lemma predict_devices_halt [simp]: "predict_devices (halt t) = []"
  by (simp add: predict_devices_def halt_def)

lemma predict_devices_emit [simp]:
  "predict_devices (emit ev r) = (case ev of Predict i c d \<Rightarrow> [d] | _ \<Rightarrow> []) @ predict_devices r"
  by (simp add: predict_devices_def emit_def)

lemma predict_devices_emits_detect [simp]:
  "predict_devices (emits (fst (auto_device_detect e d)) r) = predict_devices r"
  by (simp add: predict_devices_def emits_def auto_device_detect_def split: option.splits)

lemma predict_devices_emits_local [simp]:
  "predict_devices (emits (fst (auto_device_local e d)) r) = predict_devices r"
  by (simp add: predict_devices_def emits_def auto_device_local_def)

lemma cuda_checks_result [simp]: "cuda_checks (detect_result e s c b p) = 0"
  by (simp add: detect_result_def)

lemma cuda_checks_not_detected [simp]: "cuda_checks (detect_not_detected e s) = 0"
  by (simp add: detect_not_detected_def)

lemma predict_devices_result [simp]: "predict_devices (detect_result e s c b p) = []"
  by (simp add: detect_result_def)

lemma predict_devices_not_detected [simp]: "predict_devices (detect_not_detected e s) = []"
  by (simp add: detect_not_detected_def)

lemma detect_main_checks:
  "cuda_checks (plate_detect_main e a) =
     (if os_path_exists e (image a) \<and> (\<exists>img. Image_open e (image a) = Inr img)
      then length (fst (auto_device_detect e (device a))) else 0)"
  by (simp add: plate_detect_main_def case_prod_beta Let_def
      split: sum.splits option.splits list.splits py_exc.splits)

lemma detect_main_devices:
  "set (predict_devices (plate_detect_main e a)) \<subseteq> {snd (auto_device_detect e (device a))}"
  by (simp add: plate_detect_main_def case_prod_beta Let_def
      split: sum.splits option.splits list.splits py_exc.splits)

lemma local_main_checks:
  "cuda_checks (plate_local_main e a) =
     (if os_path_exists e (image a) \<and> (\<exists>img. Image_open e (image a) = Inr img)
      then length (fst (auto_device_local e (device a))) else 0)"
  by (simp add: plate_local_main_def case_prod_beta Let_def
      split: sum.splits option.splits list.splits py_exc.splits)

lemma local_main_devices:
  "snd (auto_device_local e (device a)) = Inr d \<Longrightarrow>
   set (predict_devices (plate_local_main e a)) \<subseteq> {d}"
  by (simp add: plate_local_main_def case_prod_beta Let_def
      split: sum.splits option.splits list.splits py_exc.splits)


lemma auto_detect_resolution:
  "auto_device_detect e ''auto'' =
     (case import_torch e of
        Some exc \<Rightarrow> ([], ''cpu'')
      | None \<Rightarrow> ([CudaCheck], if torch_cuda_is_available e = Inr True then ''0'' else ''cpu''))"
  by (simp add: auto_device_detect_def split: option.splits sum.splits)

lemma checks_detect_le: "length (fst (auto_device_detect e d)) \<le> 1"
  by (simp add: auto_device_detect_def split: option.splits)

lemma checks_local_le: "length (fst (auto_device_local e d)) \<le> 1"
  by (simp add: auto_device_local_def)

lemma local_torch_import_fails:
  assumes "import_numpy_PIL e = None" and "import_ultralytics e = None"
    and "import_paddleocr e = None" and "import_torch e = Some (Exception msg)"
  shows "plate_local e a =
           ([Print (JObj [(''plate'', JNull), (''error'', JStr (''import_error: '' @ msg))])],
            Exit 1)"
  using assms by (simp add: plate_local_def imports_local_def guarded_imports_local_def emit_def halt_def)

text \<open>
  What holds of the resolution in both scripts: a device other than \<^verbatim>\<open>"auto"\<close> is passed
  on unchanged without a check; for \<^verbatim>\<open>"auto"\<close> the capability check is called at most
  once in a run, every detection call is given the resolved device, and an answer of the
  check resolves to \<^verbatim>\<open>"0"\<close> or \<^verbatim>\<open>"cpu"\<close>. The detector-only script swallows every failure
  of \<^verbatim>\<open>import torch\<close> and of the check and resolves to \<^verbatim>\<open>"cpu"\<close>.
\<close>

lemma device_resolution:
  "auto_device_detect e ''auto'' =
     (case import_torch e of
        Some exc \<Rightarrow> ([], ''cpu'')
      | None \<Rightarrow> ([CudaCheck], if torch_cuda_is_available e = Inr True then ''0'' else ''cpu'')) \<and>
   (dv \<noteq> ''auto'' \<longrightarrow> auto_device_detect e dv = ([], dv) \<and> auto_device_local e dv = ([], Inr dv)) \<and>
   cuda_checks (plate_detect_main e a) \<le> 1 \<and>
   (os_path_exists e (image a) \<and> Image_open e (image a) = Inr img \<and> device a = ''auto'' \<and>
    import_torch e = None \<longrightarrow> cuda_checks (plate_detect_main e a) = 1) \<and>
   set (predict_devices (plate_detect_main e a)) \<subseteq> {snd (auto_device_detect e (device a))} \<and>
   (torch_cuda_is_available e = Inr b \<longrightarrow>
      auto_device_local e ''auto'' = ([CudaCheck], Inr (if b then ''0'' else ''cpu''))) \<and>
   cuda_checks (plate_local_main e a') \<le> 1 \<and>
   (os_path_exists e (image a') \<and> Image_open e (image a') = Inr img' \<and> device a' = ''auto'' \<longrightarrow>
      cuda_checks (plate_local_main e a') = 1) \<and>
   (snd (auto_device_local e (device a')) = Inr d' \<longrightarrow>
      set (predict_devices (plate_local_main e a')) \<subseteq> {d'}) \<and>
   (import_numpy_PIL e = None \<and> import_ultralytics e = None \<and> import_paddleocr e = None \<and>
    import_torch e = Some (Exception msg) \<longrightarrow>
      plate_local e a' =
        ([Print (JObj [(''plate'', JNull), (''error'', JStr (''import_error: '' @ msg))])],
         Exit 1))"
proof (intro conjI impI)
  show "auto_device_detect e ''auto'' =
     (case import_torch e of
        Some exc \<Rightarrow> ([], ''cpu'')
      | None \<Rightarrow> ([CudaCheck], if torch_cuda_is_available e = Inr True then ''0'' else ''cpu''))"
    by (rule auto_detect_resolution)
  show "cuda_checks (plate_detect_main e a) \<le> 1"
    using checks_detect_le [of e "device a"] by (simp add: detect_main_checks)
  show "cuda_checks (plate_local_main e a') \<le> 1"
    using checks_local_le [of e "device a'"] by (simp add: local_main_checks)
  show "set (predict_devices (plate_detect_main e a)) \<subseteq> {snd (auto_device_detect e (device a))}"
    by (rule detect_main_devices)
next
  assume "dv \<noteq> ''auto''"
  then show "auto_device_detect e dv = ([], dv)" by (simp add: auto_device_detect_def)
next
  assume "dv \<noteq> ''auto''"
  then show "auto_device_local e dv = ([], Inr dv)" by (simp add: auto_device_local_def)
next
  assume "os_path_exists e (image a) \<and> Image_open e (image a) = Inr img \<and> device a = ''auto'' \<and>
    import_torch e = None"
  then show "cuda_checks (plate_detect_main e a) = 1"
    by (simp add: detect_main_checks auto_device_detect_def)
next
  assume "torch_cuda_is_available e = Inr b"
  then show "auto_device_local e ''auto'' = ([CudaCheck], Inr (if b then ''0'' else ''cpu''))"
    by (simp add: auto_device_local_def)
next
  assume "os_path_exists e (image a') \<and> Image_open e (image a') = Inr img' \<and> device a' = ''auto''"
  then show "cuda_checks (plate_local_main e a') = 1"
    by (simp add: local_main_checks auto_device_local_def)
next
  assume "snd (auto_device_local e (device a')) = Inr d'"
  then show "set (predict_devices (plate_local_main e a')) \<subseteq> {d'}"
    by (rule local_main_devices)
next
  assume "import_numpy_PIL e = None \<and> import_ultralytics e = None \<and> import_paddleocr e = None \<and>
    import_torch e = Some (Exception msg)"
  then show "plate_local e a' =
        ([Print (JObj [(''plate'', JNull), (''error'', JStr (''import_error: '' @ msg))])],
         Exit 1)"
    using local_torch_import_fails [of e msg a'] by simp
qed

lemma run_detect_cuda_raises:
  "plate_detect_main env_cuda_raises dargs0 =
     ([ImageOpen ''car.jpg'', CudaCheck, LoadYOLO ''models/plate_yolo.pt'',
       Predict img0 (35 / 100) ''cpu'', Crop (0, 3, 5000, 40), Save ''crop.png'',
       Print (JObj [(''detected'', JBool True), (''confidence'', JFloat (9 / 10)),
                    (''bbox'', JList [JInt 0, JInt 3, JInt 5000, JInt 40]),
                    (''elapsed_ms'', JInt 500), (''crop_path'', JStr ''crop.png'')])],
      Exit 0)"
  by (simp add: run_defs env_cuda_raises_def ex_defs)

text \<open>
  Claim C8. A device value \<^verbatim>\<open>"auto"\<close> should resolve to \<^verbatim>\<open>"cpu"\<close> when the capability check
  raises, the failure being swallowed. The detector-only script does so (lines 40-44,
  \<^verbatim>\<open>try\<close> with a bare \<^verbatim>\<open>except\<close>); the reader script does not: line 66 calls
  \<^verbatim>\<open>torch.cuda.is_available()\<close> outside any \<^verbatim>\<open>try\<close>. With \<^verbatim>\<open>--device auto\<close> and a check that
  raises, the detector-only script runs the detection on \<^verbatim>\<open>"cpu"\<close> and ends with code 0,
  while the reader script ends right after the check with the exception uncaught: no
  model is loaded, no detection is run on any device, and no JSON object is printed.
\<close>

theorem C8_reader_check_failure:
  "device largs0 = ''auto'' \<and> device dargs0 = ''auto'' \<and>
   torch_cuda_is_available env_cuda_raises = Inl (Exception ''CUDA driver error'') \<and>
   plate_local env_cuda_raises largs0 =
     ([ImageOpen ''car.jpg'', CudaCheck], Uncaught (Exception ''CUDA driver error'')) \<and>
   predict_devices (plate_local env_cuda_raises largs0) = [] \<and>
   printed (plate_local env_cuda_raises largs0) = [] \<and>
   auto_device_detect env_cuda_raises ''auto'' = ([CudaCheck], ''cpu'') \<and>
   predict_devices (plate_detect_main env_cuda_raises dargs0) = [''cpu''] \<and>
   snd (plate_detect_main env_cuda_raises dargs0) = Exit 0"
proof -
  have l: "plate_local env_cuda_raises largs0 =
     ([ImageOpen ''car.jpg'', CudaCheck], Uncaught (Exception ''CUDA driver error''))"
    by (simp add: run_defs env_cuda_raises_def ex_defs)
  have d: "auto_device_detect env_cuda_raises ''auto'' = ([CudaCheck], ''cpu'')"
    by (simp add: auto_device_detect_def env_cuda_raises_def env0_def)
  show ?thesis
    unfolding l run_detect_cuda_raises d
    by (simp add: predict_devices_def printed_def largs0_def dargs0_def env_cuda_raises_def)
qed

section \<open>One JSON object per run\<close>

lemma np_argmax_Inl [simp]: "(np_argmax a = Inl exc) = (a = [] \<and> exc = Exception ''attempt to get argmax of an empty sequence'')"
  by (cases a) (auto simp add: np_argmax_def)

lemma np_argmax_Nil [simp]:
  "np_argmax [] = Inl (Exception ''attempt to get argmax of an empty sequence'')"
  by (simp add: np_argmax_def)

lemma getitem_argmax [simp]:
  "np_argmax (map conf bs) = Inr k \<Longrightarrow> getitem bs k = Inr (bs ! k)"
  using np_argmax_spec [of "map conf bs" k] by (simp add: getitem_def)
















end
